theory Spec2Isabelle
  imports Complex_Main
begin

section \<open>Gravity Weaver: the simulation core of \<open>src/App.tsx\<close>\<close>

text \<open>
  The model follows the second (complete) copy of the component in \<open>App.tsx\<close>.
  JavaScript numbers are modelled as \<open>real\<close> (exact arithmetic, no rounding, no NaN);
  the score, the combo counter and the tier thresholds, which only ever hold integers,
  are \<open>int\<close>; list lengths and the tier index are \<open>nat\<close>.

  React state is one record, \<open>Game\<close>. The updates a callback issues are batched: they are
  applied, in the order of the \<open>set...\<close> calls, in the render that follows the callback,
  and the refs are copied from the state by effects after that render. So a function of
  the source that reads \<open>fooRef.current\<close> reads the state committed before the callback,
  and \<open>gameLoop\<close> takes the state before the tick twice: once as the snapshot the refs
  hold, once as the state being updated. The movement of an obstacle, which the source
  writes into the position object it shares with the previous state, is modelled as the
  new value only.

  \<open>Math.random()\<close> is an explicit argument: the record \<open>Rnd\<close> has one field per call site.
  Timers (\<open>setTimeout\<close>) are kept as due times in the state, with the callback of each as a
  function of its own. The renderer, the audio analyser, the vibration API and the
  leaderboard are outside the model; a call of \<open>createParticles\<close> is recorded in the log
  \<open>effects\<close> instead of drawing the particles. A \<open>TypeError\<close> of the source (a field read
  from \<open>undefined\<close>) is the error result of the function that would throw it.
\<close>

subsection \<open>Constants\<close>

definition CANVAS_WIDTH :: real where "CANVAS_WIDTH = 400"
definition CANVAS_HEIGHT :: real where "CANVAS_HEIGHT = 600"
definition BALL_RADIUS :: real where "BALL_RADIUS = 12"
definition BASE_GRAVITY_FORCE :: real where "BASE_GRAVITY_FORCE = 0.4"
definition MAX_VELOCITY :: real where "MAX_VELOCITY = 8"
definition POWERUP_COLLECTION_RADIUS_SQUARED :: real where
  "POWERUP_COLLECTION_RADIUS_SQUARED = 900"
definition BOUNCE_DAMPING :: real where "BOUNCE_DAMPING = 0.7"
definition SHIELD_DURATION :: real where "SHIELD_DURATION = 5000"
definition SLOW_MOTION_DURATION :: real where "SLOW_MOTION_DURATION = 3000"

subsection \<open>Entities\<close>

datatype GameState = Menu | Playing | GameOver
datatype PowerUpType = Shield | Slow | Magnet
datatype ObstacleType = Spinner | Wave | Portal | Crusher
datatype EventType = Storm | Fog | InvertShock

record Position =
  posX :: real
  posY :: real

record Velocity =
  velX :: real
  velY :: real

text \<open>
  The fields \<open>id\<close> and \<open>color\<close> of the source are rendering keys and are left out.
  A type read from an array at a random index is an option: \<open>None\<close> is JavaScript's
  \<open>undefined\<close>, which the source would get from an index out of range.
\<close>

record Obstacle =
  otype :: "ObstacleType option"
  opos :: Position
  width :: real
  height :: real
  rotation :: real
  speed :: real
  phase :: real

record PowerUp =
  ptype :: "PowerUpType option"
  ppos :: Position
  collected :: bool
  pulse :: real

datatype Effect = CreateParticles Position nat string bool

record LevelConfig =
  thresholdScore :: int
  obstacleBaseChance :: real
  obstacleMax :: nat
  allowedObstacleTypes :: "ObstacleType list"
  obstacleSpeedFactor :: real
  powerUpChance :: real
  eventProbability :: real

definition LEVELS :: "LevelConfig list" where
  "LEVELS =
    [\<lparr>thresholdScore = 0, obstacleBaseChance = 0.01, obstacleMax = 4,
      allowedObstacleTypes = [Spinner, Wave], obstacleSpeedFactor = 1,
      powerUpChance = 0.01, eventProbability = 0.0005\<rparr>,
     \<lparr>thresholdScore = 500, obstacleBaseChance = 0.015, obstacleMax = 5,
      allowedObstacleTypes = [Spinner, Wave, Crusher], obstacleSpeedFactor = 1.1,
      powerUpChance = 0.009, eventProbability = 0.001\<rparr>,
     \<lparr>thresholdScore = 1500, obstacleBaseChance = 0.02, obstacleMax = 6,
      allowedObstacleTypes = [Spinner, Wave, Crusher, Portal], obstacleSpeedFactor = 1.25,
      powerUpChance = 0.008, eventProbability = 0.002\<rparr>,
     \<lparr>thresholdScore = 3000, obstacleBaseChance = 0.025, obstacleMax = 7,
      allowedObstacleTypes = [Spinner, Wave, Crusher, Portal], obstacleSpeedFactor = 1.4,
      powerUpChance = 0.007, eventProbability = 0.003\<rparr>,
     \<lparr>thresholdScore = 5000, obstacleBaseChance = 0.03, obstacleMax = 8,
      allowedObstacleTypes = [Spinner, Wave, Crusher, Portal], obstacleSpeedFactor = 1.6,
      powerUpChance = 0.006, eventProbability = 0.005\<rparr>]"

record PatternOffset =
  dx :: real
  dy :: real
  slotType :: ObstacleType

definition PATTERNS :: "PatternOffset list list" where
  "PATTERNS =
    [[\<lparr>dx = 0, dy = 0, slotType = Spinner\<rparr>,
      \<lparr>dx = -60, dy = -40, slotType = Spinner\<rparr>,
      \<lparr>dx = 120, dy = 80, slotType = Spinner\<rparr>],
     [\<lparr>dx = 0, dy = 0, slotType = Wave\<rparr>,
      \<lparr>dx = 0, dy = -80, slotType = Crusher\<rparr>,
      \<lparr>dx = 80, dy = 0, slotType = Wave\<rparr>],
     [\<lparr>dx = 0, dy = 0, slotType = Portal\<rparr>,
      \<lparr>dx = -100, dy = 50, slotType = Wave\<rparr>,
      \<lparr>dx = 100, dy = -50, slotType = Wave\<rparr>],
     [\<lparr>dx = 0, dy = 0, slotType = Crusher\<rparr>,
      \<lparr>dx = -80, dy = 30, slotType = Crusher\<rparr>,
      \<lparr>dx = 80, dy = -30, slotType = Crusher\<rparr>]]"

subsection \<open>The state of the component\<close>

text \<open>
  \<open>prevTime\<close> is \<open>prevTimeRef\<close> (\<open>None\<close> for \<open>undefined\<close>). \<open>shieldTimeout\<close> and
  \<open>slowTimeout\<close> are the one pending timer each of the two refs can hold (a new pickup
  clears the old timer); the timers of events are not kept in a ref and are never
  cleared, so \<open>eventTimeouts\<close> is a list. \<open>beatActive\<close> is set by the audio analyser.
\<close>

record Game =
  gameState :: GameState
  score :: int
  combo :: int
  currentLevelIndex :: nat
  speedMultiplier :: real
  ballPos :: Position
  ballVel :: Velocity
  gravityDir :: real
  obstacles :: "Obstacle list"
  powerUps :: "PowerUp list"
  invulnerable :: bool
  shake :: real
  isEventActive :: bool
  activeEventType :: "EventType option"
  spawnMultiplier :: real
  beatActive :: bool
  prevTime :: "real option"
  shieldTimeout :: "real option"
  slowTimeout :: "real option"
  eventTimeouts :: "real list"
  effects :: "Effect list"

datatype GameError = TypeError

record Rnd =
  eventRoll :: real
  eventPick :: real
  spawnRoll :: real
  patternRoll :: real
  patternPick :: real
  slotSpeed :: "nat \<Rightarrow> real"
  slotPhase :: "nat \<Rightarrow> real"
  typePick :: real
  speedRoll :: real
  yRoll :: real
  phaseRoll :: real
  powerUpRoll :: real
  powerUpPick :: real
  powerUpY :: real

text \<open>\<open>xs[Math.floor(r * xs.length)]\<close>, \<open>None\<close> when the index is out of range.\<close>

definition pickAt :: "'a list \<Rightarrow> real \<Rightarrow> 'a option" where
  "pickAt xs r =
     (let i = \<lfloor>r * real (length xs)\<rfloor>
      in if 0 \<le> i \<and> nat i < length xs then Some (xs ! nat i) else None)"

text \<open>\<open>Math.round\<close>: the nearest integer, a half rounded up.\<close>

definition round_js :: "real \<Rightarrow> int" where
  "round_js v = \<lfloor>v + 1 / 2\<rfloor>"

text \<open>The initial values of the \<open>useState\<close> and \<open>useRef\<close> calls.\<close>

definition initialGame :: Game where
  "initialGame =
     \<lparr>gameState = Menu, score = 0, combo = 0, currentLevelIndex = 0, speedMultiplier = 1,
      ballPos = \<lparr>posX = 100, posY = CANVAS_HEIGHT / 2\<rparr>, ballVel = \<lparr>velX = 0, velY = 0\<rparr>,
      gravityDir = 1, obstacles = [], powerUps = [], invulnerable = False, shake = 0,
      isEventActive = False, activeEventType = None, spawnMultiplier = 1,
      beatActive = False, prevTime = None, shieldTimeout = None, slowTimeout = None,
      eventTimeouts = [], effects = []\<rparr>"

subsection \<open>Procedural generator\<close>

text \<open>
  The speed formula shared by \<open>generateObstacle\<close> and \<open>generateObstaclePattern\<close>; \<open>r\<close> is
  the draw of \<open>Math.random()\<close>, \<open>s\<close> the state the refs hold.
\<close>

definition obstacleSpeed :: "real \<Rightarrow> LevelConfig \<Rightarrow> Game \<Rightarrow> real" where
  "obstacleSpeed r levelConfig s =
     (2.5 + r * 2 + real_of_int (score s) / 5000) * obstacleSpeedFactor levelConfig *
     (if isEventActive s \<and> activeEventType s = Some Storm then 1.2 else 1) *
     (if beatActive s then 1.3 else 1)"

definition obstacleWidth :: "ObstacleType option \<Rightarrow> real" where
  "obstacleWidth t = (if t = Some Portal then 50 else if t = Some Crusher then 30 else 40)"

definition obstacleHeight :: "ObstacleType option \<Rightarrow> real" where
  "obstacleHeight t = (if t = Some Portal then 50 else if t = Some Crusher then 180 else 70)"

text \<open>One slot of a pattern; \<open>i\<close> is the index of the slot, which selects its draws.\<close>

definition patternSlot :: "Rnd \<Rightarrow> LevelConfig \<Rightarrow> Game \<Rightarrow> nat \<Rightarrow> PatternOffset \<Rightarrow> Obstacle" where
  "patternSlot rnd levelConfig s i offset =
     (let t = (if slotType offset \<in> set (allowedObstacleTypes levelConfig)
               then Some (slotType offset)
               else (case allowedObstacleTypes levelConfig of [] \<Rightarrow> None | t0 # _ \<Rightarrow> Some t0))
      in \<lparr>otype = t,
          opos = \<lparr>posX = CANVAS_WIDTH + 60 + dx offset,
                  posY = min (max (dy offset + CANVAS_HEIGHT / 2) 50) (CANVAS_HEIGHT - 50)\<rparr>,
          width = obstacleWidth t, height = obstacleHeight t, rotation = 0,
          speed = obstacleSpeed (slotSpeed rnd i) levelConfig s,
          phase = slotPhase rnd i * pi * 2\<rparr>)"

text \<open>
  \<open>PATTERNS[patternIndex]\<close> is \<open>undefined\<close> for an index out of range, and reading its
  \<open>offsets\<close> throws.
\<close>

definition generateObstaclePattern :: "Rnd \<Rightarrow> LevelConfig \<Rightarrow> Game \<Rightarrow> GameError + Obstacle list" where
  "generateObstaclePattern rnd levelConfig s =
     (case pickAt PATTERNS (patternPick rnd) of
        None \<Rightarrow> Inl TypeError
      | Some pattern \<Rightarrow>
          Inr (map (\<lambda>(i, offset). patternSlot rnd levelConfig s i offset)
                 (zip [0..<length pattern] pattern)))"

definition generateObstacle :: "Rnd \<Rightarrow> LevelConfig \<Rightarrow> Game \<Rightarrow> Obstacle" where
  "generateObstacle rnd levelConfig s =
     (let t = pickAt (allowedObstacleTypes levelConfig) (typePick rnd)
      in \<lparr>otype = t,
          opos = \<lparr>posX = CANVAS_WIDTH + 60, posY = yRoll rnd * (CANVAS_HEIGHT - 250) + 125\<rparr>,
          width = obstacleWidth t, height = obstacleHeight t, rotation = 0,
          speed = obstacleSpeed (speedRoll rnd) levelConfig s,
          phase = phaseRoll rnd * pi * 2\<rparr>)"

definition generatePowerUp :: "Rnd \<Rightarrow> PowerUp" where
  "generatePowerUp rnd =
     \<lparr>ptype = pickAt [Shield, Slow, Magnet] (powerUpPick rnd),
      ppos = \<lparr>posX = CANVAS_WIDTH + 40, posY = powerUpY rnd * (CANVAS_HEIGHT - 150) + 75\<rparr>,
      collected = False, pulse = 0\<rparr>"

text \<open>\<open>LEVELS[i]\<close>: \<open>None\<close> is \<open>undefined\<close>, and reading a field of it throws.\<close>

definition levelAt :: "nat \<Rightarrow> LevelConfig option" where
  "levelAt i = (if i < length LEVELS then Some (LEVELS ! i) else None)"

text \<open>
  \<open>startGame\<close>. The first obstacle is generated before the new state is committed, so
  from the tier and the score the refs still hold. The timers of the shield and of the
  slow motion are cleared; a pending timer of an event is not. The effect that follows
  the change of \<open>gameState\<close> sets \<open>prevTimeRef\<close> to the current time \<open>now\<close>.
\<close>

definition startGame :: "real \<Rightarrow> Rnd \<Rightarrow> Game \<Rightarrow> GameError + Game" where
  "startGame now rnd s =
     (case levelAt (currentLevelIndex s) of
        None \<Rightarrow> Inl TypeError
      | Some levelConfig \<Rightarrow>
          Inr (s\<lparr>gameState := Playing, score := 0, combo := 0,
                 ballPos := \<lparr>posX = 100, posY = CANVAS_HEIGHT / 2\<rparr>,
                 ballVel := \<lparr>velX = 0, velY = 0\<rparr>, gravityDir := 1,
                 obstacles := [generateObstacle rnd levelConfig s], powerUps := [],
                 invulnerable := False, shake := 0, currentLevelIndex := 0,
                 isEventActive := False, activeEventType := None, spawnMultiplier := 1,
                 beatActive := False, shieldTimeout := None, slowTimeout := None,
                 prevTime := Some now\<rparr>))"

subsection \<open>Event modulator\<close>

text \<open>
  \<open>triggerRandomEvent\<close>, called at time \<open>now\<close>: \<open>s\<close> is the state the refs hold, \<open>a\<close> the
  state being updated. The timer it starts is due 4000 ms later, whatever was chosen.
\<close>

definition triggerRandomEvent :: "real \<Rightarrow> Rnd \<Rightarrow> Game \<Rightarrow> Game \<Rightarrow> Game" where
  "triggerRandomEvent now rnd s a =
     (if isEventActive s then a
      else a\<lparr>activeEventType := pickAt [Storm, Fog, InvertShock] (eventPick rnd),
             isEventActive := True,
             eventTimeouts := eventTimeouts a @ [now + 4000]\<rparr>)"

definition eventTimeoutCallback :: "Game \<Rightarrow> Game" where
  "eventTimeoutCallback a = a\<lparr>isEventActive := False, activeEventType := None\<rparr>"

text \<open>The timers of events that are due at time \<open>t\<close> run their callback and are gone.\<close>

definition fireEventTimeouts :: "real \<Rightarrow> Game \<Rightarrow> Game" where
  "fireEventTimeouts t a =
     (fold (\<lambda>_. eventTimeoutCallback) (filter (\<lambda>due. due \<le> t) (eventTimeouts a)) a)
       \<lparr>eventTimeouts := filter (\<lambda>due. \<not> due \<le> t) (eventTimeouts a)\<rparr>"

subsection \<open>Physics integrator\<close>

text \<open>\<open>effectiveDeltaRatio\<close>; a \<open>prevTimeRef\<close> that is \<open>undefined\<close> or 0 is falsy.\<close>

definition deltaRatio :: "real \<Rightarrow> Game \<Rightarrow> real" where
  "deltaRatio timestamp s =
     (let timeDelta = (case prevTime s of
                         None \<Rightarrow> 16.66
                       | Some t \<Rightarrow> if t \<noteq> 0 then timestamp - t else 16.66)
      in min 2 (max 0.1 (timeDelta / 16.66)))"

text \<open>\<open>newTentativeVelY\<close> and \<open>newTentativePosY\<close> as they are before the boundary tests.\<close>

definition tentativeVelY :: "real \<Rightarrow> Game \<Rightarrow> real" where
  "tentativeVelY dt s =
     (let gravityForce = BASE_GRAVITY_FORCE * speedMultiplier s;
          v = velY (ballVel s) + gravityForce * gravityDir s * dt
      in max (- MAX_VELOCITY * speedMultiplier s) (min (MAX_VELOCITY * speedMultiplier s) v))"

definition tentativePosY :: "real \<Rightarrow> Game \<Rightarrow> real" where
  "tentativePosY dt s = posY (ballPos s) + tentativeVelY dt s * dt"

definition hitsTop :: "real \<Rightarrow> Game \<Rightarrow> bool" where
  "hitsTop dt s = (tentativePosY dt s - BALL_RADIUS \<le> 0 \<and> tentativeVelY dt s < 0)"

definition hitsBottom :: "real \<Rightarrow> Game \<Rightarrow> bool" where
  "hitsBottom dt s =
     (tentativePosY dt s + BALL_RADIUS \<ge> CANVAS_HEIGHT \<and> tentativeVelY dt s > 0)"

text \<open>
  The integration step of \<open>gameLoop\<close> with its \<open>if\<close> / \<open>else if\<close> on the two boundaries:
  \<open>s\<close> is the state the refs hold, \<open>a\<close> the state being updated.
\<close>

definition physicsPhase :: "real \<Rightarrow> Game \<Rightarrow> Game \<Rightarrow> Game" where
  "physicsPhase dt s a =
     (let currentPosX = posX (ballPos s);
          v = tentativeVelY dt s;
          p = tentativePosY dt s
      in if hitsTop dt s then
           a\<lparr>gravityDir := - gravityDir a,
             effects := effects a @
               [CreateParticles \<lparr>posX = currentPosX, posY = BALL_RADIUS\<rparr> 12 ''#88FFFF'' False],
             shake := 5,
             ballVel := \<lparr>velX = 0, velY = - v * BOUNCE_DAMPING\<rparr>,
             ballPos := \<lparr>posX = currentPosX, posY = BALL_RADIUS\<rparr>\<rparr>
         else if hitsBottom dt s then
           a\<lparr>gravityDir := - gravityDir a,
             effects := effects a @
               [CreateParticles \<lparr>posX = currentPosX, posY = CANVAS_HEIGHT - BALL_RADIUS\<rparr> 12
                  ''#FF88FF'' False],
             shake := 5,
             ballVel := \<lparr>velX = 0, velY = - v * BOUNCE_DAMPING\<rparr>,
             ballPos := \<lparr>posX = currentPosX, posY = CANVAS_HEIGHT - BALL_RADIUS\<rparr>\<rparr>
         else
           a\<lparr>ballVel := \<lparr>velX = 0, velY = v\<rparr>,
             ballPos := \<lparr>posX = currentPosX, posY = p\<rparr>\<rparr>)"

subsection \<open>Motion of obstacles and power-ups\<close>

definition moveObstacle :: "real \<Rightarrow> Game \<Rightarrow> Obstacle \<Rightarrow> Obstacle" where
  "moveObstacle dt s obs =
     (let speedMultiplierEvent =
            (if isEventActive s \<and> activeEventType s = Some Storm then 1.2 else 1);
          speedMultiplierBeat = (if beatActive s then 1.3 else 1);
          x' = posX (opos obs) - speed obs * speedMultiplierEvent * speedMultiplierBeat * dt;
          phase' = phase obs + 0.05 * dt * (if otype obs = Some Crusher then 2 else 1);
          updated = obs\<lparr>opos := (opos obs)\<lparr>posX := x'\<rparr>, phase := phase'\<rparr>
      in case otype obs of
           Some Spinner \<Rightarrow> updated\<lparr>rotation := rotation obs + 4 * dt * (speed obs / 3)\<rparr>
         | Some Wave \<Rightarrow>
             updated\<lparr>opos := (opos updated)\<lparr>posY := posY (opos obs) + sin phase' * 1.5 * dt\<rparr>\<rparr>
         | Some Portal \<Rightarrow> updated\<lparr>rotation := rotation obs - 2.5 * dt\<rparr>
         | Some Crusher \<Rightarrow> updated\<lparr>height := 150 + \<bar>sin phase'\<bar> * 100\<rparr>
         | None \<Rightarrow> updated)"

definition onScreen :: "Obstacle \<Rightarrow> bool" where
  "onScreen obs = (posX (opos obs) > -150)"

definition advanceObstacles :: "real \<Rightarrow> Game \<Rightarrow> Obstacle list \<Rightarrow> Obstacle list" where
  "advanceObstacles dt s prevObs = filter onScreen (map (moveObstacle dt s) prevObs)"

definition advancePowerUps :: "real \<Rightarrow> PowerUp list \<Rightarrow> PowerUp list" where
  "advancePowerUps dt prevPows =
     filter (\<lambda>p. \<not> collected p \<or> pulse p < pi * 4)
       (filter (\<lambda>p. posX (ppos p) > -80 \<or> collected p)
          (map (\<lambda>p. p\<lparr>ppos := (ppos p)\<lparr>posX := posX (ppos p) - 2.5 * dt\<rparr>,
                      pulse := pulse p + 0.15 * dt\<rparr>) prevPows))"

subsection \<open>Spawn gating\<close>

definition dynamicObstacleChance :: "LevelConfig \<Rightarrow> Game \<Rightarrow> real" where
  "dynamicObstacleChance levelConfig s =
     obstacleBaseChance levelConfig * spawnMultiplier s + real_of_int (score s) * 0.00001"

definition spawnFires :: "Rnd \<Rightarrow> real \<Rightarrow> LevelConfig \<Rightarrow> Game \<Rightarrow> bool" where
  "spawnFires rnd dt levelConfig s =
     (spawnRoll rnd < dynamicObstacleChance levelConfig s * dt \<and>
      length (obstacles s) < obstacleMax levelConfig)"

text \<open>The obstacles the tick appends: a pattern, one obstacle, or none.\<close>

definition spawnObstacles :: "Rnd \<Rightarrow> real \<Rightarrow> LevelConfig \<Rightarrow> Game \<Rightarrow> GameError + Obstacle list" where
  "spawnObstacles rnd dt levelConfig s =
     (if spawnFires rnd dt levelConfig s then
        (if patternRoll rnd < 0.25 then generateObstaclePattern rnd levelConfig s
         else Inr [generateObstacle rnd levelConfig s])
      else Inr [])"

definition spawnPowerUps :: "Rnd \<Rightarrow> real \<Rightarrow> LevelConfig \<Rightarrow> Game \<Rightarrow> PowerUp list" where
  "spawnPowerUps rnd dt levelConfig s =
     (if powerUpRoll rnd < powerUpChance levelConfig * dt \<and>
         length (filter (\<lambda>p. \<not> collected p) (powerUps s)) < 2
      then [generatePowerUp rnd] else [])"

subsection \<open>Collision and interaction resolver\<close>

text \<open>
  \<open>checkObstacleCollisions\<close>: the \<open>for\<close> loop over \<open>obstaclesRef.current\<close>, with its
  \<open>continue\<close> and its early \<open>return true\<close>; \<open>shielded\<close> is \<open>invulnerableRef.current\<close>.
\<close>

fun checkObstacleCollisions :: "bool \<Rightarrow> Position \<Rightarrow> Obstacle list \<Rightarrow> bool" where
  "checkObstacleCollisions shielded ballCurrentPos [] = False"
| "checkObstacleCollisions shielded ballCurrentPos (obs # rest) =
     (let halfW = width obs / 2;
          halfH = height obs / 2;
          obsLeft = posX (opos obs) - halfW;
          obsRight = posX (opos obs) + halfW;
          obsTop = posY (opos obs) - halfH;
          obsBottom = posY (opos obs) + halfH
      in if posX ballCurrentPos + BALL_RADIUS < obsLeft \<or>
            posX ballCurrentPos - BALL_RADIUS > obsRight \<or>
            posY ballCurrentPos + BALL_RADIUS < obsTop \<or>
            posY ballCurrentPos - BALL_RADIUS > obsBottom
         then checkObstacleCollisions shielded ballCurrentPos rest
         else
           (let closestX = max obsLeft (min (posX ballCurrentPos) obsRight);
                closestY = max obsTop (min (posY ballCurrentPos) obsBottom);
                ddx = posX ballCurrentPos - closestX;
                ddy = posY ballCurrentPos - closestY;
                distanceSquared = ddx * ddx + ddy * ddy
            in if distanceSquared < BALL_RADIUS * BALL_RADIUS \<and> \<not> shielded then True
               else checkObstacleCollisions shielded ballCurrentPos rest))"

text \<open>The overlap that the loop detects for one obstacle, before the shield is looked at.\<close>

definition overlaps :: "Position \<Rightarrow> Obstacle \<Rightarrow> bool" where
  "overlaps ballCurrentPos obs = checkObstacleCollisions False ballCurrentPos [obs]"

definition inPickupRange :: "Position \<Rightarrow> PowerUp \<Rightarrow> bool" where
  "inPickupRange ball p =
     (let ddx = posX ball - posX (ppos p);
          ddy = posY ball - posY (ppos p);
          distanceSquared = ddx * ddx + ddy * ddy
      in distanceSquared < POWERUP_COLLECTION_RADIUS_SQUARED)"

text \<open>The two tests of the loop of \<open>collectPowerUps\<close> that lead to a pickup.\<close>

definition pickedUp :: "Position \<Rightarrow> PowerUp \<Rightarrow> bool" where
  "pickedUp ball p = (\<not> collected p \<and> inPickupRange ball p)"

definition slowObstacle :: "Obstacle \<Rightarrow> Obstacle" where
  "slowObstacle obs = obs\<lparr>speed := speed obs * 0.6\<rparr>"

definition restoreObstacle :: "Obstacle \<Rightarrow> Obstacle" where
  "restoreObstacle obs = obs\<lparr>speed := speed obs / 0.6\<rparr>"

text \<open>
  What one pickup does besides marking the power-up: the \<open>createParticles\<close> call and the
  \<open>switch\<close> on the type. A timer started at time \<open>now\<close> replaces the one in the ref.
\<close>

definition applyPowerUp :: "real \<Rightarrow> PowerUp \<Rightarrow> Game \<Rightarrow> Game" where
  "applyPowerUp now p a =
     (let a' = a\<lparr>effects := effects a @ [CreateParticles (ppos p) 15 ''#32CD32'' False]\<rparr>
      in case ptype p of
           Some Shield \<Rightarrow> a'\<lparr>invulnerable := True, shieldTimeout := Some (now + SHIELD_DURATION)\<rparr>
         | Some Slow \<Rightarrow>
             a'\<lparr>obstacles := map slowObstacle (obstacles a'),
                slowTimeout := Some (now + SLOW_MOTION_DURATION)\<rparr>
         | Some Magnet \<Rightarrow> a'\<lparr>score := score a' + 500, combo := combo a' + 5\<rparr>
         | None \<Rightarrow> a')"

definition shieldTimeoutCallback :: "Game \<Rightarrow> Game" where
  "shieldTimeoutCallback a = a\<lparr>invulnerable := False\<rparr>"

definition slowTimeoutCallback :: "Game \<Rightarrow> Game" where
  "slowTimeoutCallback a = a\<lparr>obstacles := map restoreObstacle (obstacles a)\<rparr>"

text \<open>
  The loop of \<open>collectPowerUps\<close>, from the last index down to 0. The list argument holds
  the entries still to visit, the next one first (so it starts as the reversed list);
  the result has the visited entries in the same order, whether any was marked, and the
  state after the pickups.
\<close>

fun collectLoop :: "real \<Rightarrow> Position \<Rightarrow> PowerUp list \<Rightarrow> Game \<Rightarrow> PowerUp list \<times> bool \<times> Game" where
  "collectLoop now ball [] a = ([], False, a)"
| "collectLoop now ball (p # rest) a =
     (if collected p then
        (case collectLoop now ball rest a of (qs, changed, a') \<Rightarrow> (p # qs, changed, a'))
      else if inPickupRange ball p then
        (case collectLoop now ball rest (applyPowerUp now p a) of
           (qs, changed, a') \<Rightarrow> (p\<lparr>collected := True\<rparr> # qs, True, a'))
      else
        (case collectLoop now ball rest a of (qs, changed, a') \<Rightarrow> (p # qs, changed, a')))"

text \<open>
  \<open>collectPowerUps\<close>: \<open>ball\<close> is \<open>ballPosRef.current\<close>, \<open>a\<close> the state being updated, whose
  power-ups are the \<open>prevPowerUps\<close> of the updater.
\<close>

definition collectPowerUps :: "real \<Rightarrow> Position \<Rightarrow> Game \<Rightarrow> Game" where
  "collectPowerUps now ball a =
     (case collectLoop now ball (rev (powerUps a)) a of
        (qs, changed, a') \<Rightarrow>
          a'\<lparr>powerUps :=
               (if changed
                then filter (\<lambda>p. \<not> collected p \<or> posX (ppos p) > -50) (rev qs)
                else powerUps a)\<rparr>)"

subsection \<open>Difficulty ladder\<close>

text \<open>The \<open>createParticles\<close> call that celebrates a tier advance.\<close>

definition tierAdvanceSignal :: Effect where
  "tierAdvanceSignal =
     CreateParticles \<lparr>posX = CANVAS_WIDTH / 2, posY = CANVAS_HEIGHT / 2\<rparr> 30 ''#FFD700'' False"

text \<open>The effect that runs after a render in which the score or the tier index changed.\<close>

definition levelAdvance :: "Game \<Rightarrow> Game" where
  "levelAdvance s =
     (let nextLevelIndex = currentLevelIndex s + 1
      in if nextLevelIndex < length LEVELS \<and>
            score s \<ge> thresholdScore (LEVELS ! nextLevelIndex)
         then s\<lparr>currentLevelIndex := nextLevelIndex,
                effects := effects s @ [tierAdvanceSignal]\<rparr>
         else s)"

text \<open>
  The tier index is a dependency of the effect, so an advance makes it run again: the
  effect is repeated until it leaves the index alone.
\<close>

function levelSettle :: "Game \<Rightarrow> Game" where
  "levelSettle s =
     (let s' = levelAdvance s
      in if currentLevelIndex s' = currentLevelIndex s then s' else levelSettle s')"
  by pat_completeness auto
termination
  by (relation "measure (\<lambda>s. length LEVELS - currentLevelIndex s)")
     (auto simp: levelAdvance_def Let_def split: if_splits)

text \<open>A run seen by the ladder: the successive values of the score.\<close>

fun levelRun :: "int list \<Rightarrow> Game \<Rightarrow> Game" where
  "levelRun [] s = s"
| "levelRun (newScore # rest) s = levelRun rest (levelSettle (s\<lparr>score := newScore\<rparr>))"

subsection \<open>Tick orchestrator\<close>

text \<open>
  The steps of \<open>gameLoop\<close> after the integration, in the order of the source. In each,
  \<open>s\<close> is the state before the tick, which is what every ref holds during the tick
  (also inside the updaters and inside the generators they call), and \<open>a\<close> is the state
  being updated.
\<close>

definition eventPhase :: "Rnd \<Rightarrow> real \<Rightarrow> real \<Rightarrow> LevelConfig \<Rightarrow> Game \<Rightarrow> Game \<Rightarrow> Game" where
  "eventPhase rnd timestamp dt levelConfig s a =
     (if \<not> isEventActive s \<and> eventRoll rnd < eventProbability levelConfig * dt
      then triggerRandomEvent timestamp rnd s a else a)"

text \<open>
  Motion and pruning, the two spawns (\<open>newObstacles\<close> is what \<open>spawnObstacles\<close> made),
  the score, the combo and the shake.
\<close>

definition worldPhase :: "Rnd \<Rightarrow> real \<Rightarrow> LevelConfig \<Rightarrow> Obstacle list \<Rightarrow> Game \<Rightarrow> Game \<Rightarrow> Game" where
  "worldPhase rnd dt levelConfig newObstacles s a =
     a\<lparr>obstacles := advanceObstacles dt s (obstacles a) @ newObstacles,
       powerUps := advancePowerUps dt (powerUps a) @ spawnPowerUps rnd dt levelConfig s,
       score := score a + round_js (1 * dt),
       combo := combo a + round_js (1 * dt),
       shake := max 0 (shake a - 0.5 * dt)\<rparr>"

text \<open>
  The collision test, at the new position of the ball, against the obstacles the ref
  holds (those before the tick), and the transition to \<open>GameOver\<close>.
\<close>

definition collisionPhase :: "Position \<Rightarrow> Game \<Rightarrow> Game \<Rightarrow> Game" where
  "collisionPhase collisionCheckPos s a =
     (if checkObstacleCollisions (invulnerable s) collisionCheckPos (obstacles s)
      then a\<lparr>gameState := GameOver,
             effects := effects a @ [CreateParticles (ballPos s) 30 ''#FF4500'' True]\<rparr>
      else a)"

text \<open>
  \<open>gameLoop\<close> at the frame time \<open>timestamp\<close>. The power-ups are collected last, against
  the position the ball had before the tick (the ref). Timers are started at
  \<open>timestamp\<close>. An exception (an undefined tier or pattern) ends the tick.
\<close>

definition gameLoop :: "Rnd \<Rightarrow> real \<Rightarrow> Game \<Rightarrow> GameError + Game" where
  "gameLoop rnd timestamp s =
     (if gameState s \<noteq> Playing then Inr s
      else
        case levelAt (currentLevelIndex s) of
          None \<Rightarrow> Inl TypeError
        | Some levelConfig \<Rightarrow>
            (let dt = deltaRatio timestamp s
             in case spawnObstacles rnd dt levelConfig s of
                  Inl e \<Rightarrow> Inl e
                | Inr newObstacles \<Rightarrow>
                    (let a1 = physicsPhase dt s (s\<lparr>prevTime := Some timestamp\<rparr>);
                         collisionCheckPos = ballPos a1;
                         a2 = eventPhase rnd timestamp dt levelConfig s a1;
                         a3 = worldPhase rnd dt levelConfig newObstacles s a2;
                         a4 = collisionPhase collisionCheckPos s a3
                     in Inr (collectPowerUps timestamp (ballPos s) a4))))"

text \<open>
  The power-ups the updater of \<open>collectPowerUps\<close> receives in a tick: those of the state,
  moved and pruned, followed by the one spawned in this tick, if any.
\<close>

definition pendingPowerUps :: "Rnd \<Rightarrow> real \<Rightarrow> LevelConfig \<Rightarrow> Game \<Rightarrow> PowerUp list" where
  "pendingPowerUps rnd dt levelConfig s =
     advancePowerUps dt (powerUps s) @ spawnPowerUps rnd dt levelConfig s"

text \<open>
  The obstacles a tick holds when the updater of \<open>collectPowerUps\<close> runs, that is just
  before the pickups of the tick: those of the state, moved and pruned, followed by the
  obstacles spawned in this tick.
\<close>

definition pendingObstacles :: "Rnd \<Rightarrow> real \<Rightarrow> LevelConfig \<Rightarrow> Game \<Rightarrow> GameError + Obstacle list" where
  "pendingObstacles rnd dt levelConfig s =
     (case spawnObstacles rnd dt levelConfig s of
        Inl e \<Rightarrow> Inl e
      | Inr newObstacles \<Rightarrow> Inr (advanceObstacles dt s (obstacles s) @ newObstacles))"

subsection \<open>The input hook\<close>

definition toggleGravity :: "Game \<Rightarrow> Game" where
  "toggleGravity s =
     (if gameState s \<noteq> Playing then s
      else s\<lparr>gravityDir := - gravityDir s,
             effects := effects s @
               [CreateParticles (ballPos s) 8
                  (if gravityDir s = 1 then ''#FFB6C1'' else ''#87CEFA'') False],
             shake := 6\<rparr>)"

subsection \<open>Runs\<close>

text \<open>The number of slow power-ups the tick at \<open>timestamp\<close> picks up.\<close>

definition slowPickups :: "Rnd \<Rightarrow> real \<Rightarrow> Game \<Rightarrow> nat" where
  "slowPickups rnd timestamp s =
     (if gameState s \<noteq> Playing then 0
      else case levelAt (currentLevelIndex s) of
             None \<Rightarrow> 0
           | Some levelConfig \<Rightarrow>
               length (filter (\<lambda>p. pickedUp (ballPos s) p \<and> ptype p = Some Slow)
                         (pendingPowerUps rnd (deltaRatio timestamp s) levelConfig s)))"

text \<open>
  What can happen to a run between two frames, besides a restart: a frame, a tap, the
  tier effect, the timer of the shield, timers of events.
\<close>

datatype Step = Frame Rnd real | Tap | TierEffect | ShieldExpires | EventsExpire real

fun step :: "Step \<Rightarrow> Game \<Rightarrow> GameError + Game" where
  "step (Frame rnd timestamp) s = gameLoop rnd timestamp s"
| "step Tap s = Inr (toggleGravity s)"
| "step TierEffect s = Inr (levelAdvance s)"
| "step ShieldExpires s = Inr (shieldTimeoutCallback s)"
| "step (EventsExpire t) s = Inr (fireEventTimeouts t s)"

fun run :: "Step list \<Rightarrow> Game \<Rightarrow> GameError + Game" where
  "run [] s = Inr s"
| "run (st # rest) s = (case step st s of Inl e \<Rightarrow> Inl e | Inr s' \<Rightarrow> run rest s')"

text \<open>No slow power-up is picked up in any frame of the steps.\<close>

fun calm :: "Step list \<Rightarrow> Game \<Rightarrow> bool" where
  "calm [] s = True"
| "calm (st # rest) s =
     ((case st of Frame rnd timestamp \<Rightarrow> slowPickups rnd timestamp s = 0 | _ \<Rightarrow> True) \<and>
      (case step st s of Inl e \<Rightarrow> True | Inr s' \<Rightarrow> calm rest s'))"

text \<open>
  One obstacle followed through a step and through a list of steps: \<open>None\<close> once the
  frame has pruned it.
\<close>

fun trackStep :: "Step \<Rightarrow> Game \<Rightarrow> Obstacle \<Rightarrow> Obstacle option" where
  "trackStep (Frame rnd timestamp) s obs =
     (if gameState s \<noteq> Playing then Some obs
      else if onScreen (moveObstacle (deltaRatio timestamp s) s obs)
           then Some (moveObstacle (deltaRatio timestamp s) s obs) else None)"
| "trackStep st s obs = Some obs"

fun track :: "Step list \<Rightarrow> Game \<Rightarrow> Obstacle \<Rightarrow> Obstacle option" where
  "track [] s obs = Some obs"
| "track (st # rest) s obs =
     (case trackStep st s obs of
        None \<Rightarrow> None
      | Some obs' \<Rightarrow> (case step st s of Inl e \<Rightarrow> None | Inr s' \<Rightarrow> track rest s' obs'))"

subsection \<open>Example states\<close>

text \<open>Draws at which no event, no obstacle and no power-up is spawned.\<close>

definition quietRnd :: Rnd where
  "quietRnd =
     \<lparr>eventRoll = 0.99, eventPick = 0, spawnRoll = 0.99, patternRoll = 0.99, patternPick = 0,
      slotSpeed = (\<lambda>_. 0), slotPhase = (\<lambda>_. 0), typePick = 0, speedRoll = 0, yRoll = 0,
      phaseRoll = 0, powerUpRoll = 0.99, powerUpPick = 0, powerUpY = 0\<rparr>"

text \<open>Draws at which a pattern of obstacles is spawned, and nothing else.\<close>

definition patternRnd :: Rnd where
  "patternRnd = quietRnd\<lparr>spawnRoll := 0, patternRoll := 0\<rparr>"

text \<open>A run in its first frame, with no obstacle; the frame before was at time 1000.\<close>

definition playingGame :: Game where
  "playingGame = initialGame\<lparr>gameState := Playing, prevTime := Some 1000\<rparr>"

text \<open>The ball one unit below the top boundary, rising; and one above the bottom, falling.\<close>

definition topGame :: Game where
  "topGame = playingGame\<lparr>ballPos := \<lparr>posX = 100, posY = 13\<rparr>,
                         ballVel := \<lparr>velX = 0, velY = -5\<rparr>, gravityDir := -1\<rparr>"

definition bottomGame :: Game where
  "bottomGame = playingGame\<lparr>ballPos := \<lparr>posX = 100, posY = 587\<rparr>,
                            ballVel := \<lparr>velX = 0, velY = 5\<rparr>, gravityDir := 1\<rparr>"

text \<open>An obstacle on the ball, and a shielded run that holds it.\<close>

definition blocker :: Obstacle where
  "blocker = \<lparr>otype = Some Spinner, opos = \<lparr>posX = 100, posY = 300\<rparr>, width = 40,
              height = 70, rotation = 0, speed = 3, phase = 0\<rparr>"

definition shieldedGame :: Game where
  "shieldedGame = playingGame\<lparr>invulnerable := True, obstacles := [blocker]\<rparr>"

text \<open>A magnet five units right of the ball; \<open>movedMagnet\<close> is the magnet after one frame.\<close>

definition magnetGame :: Game where
  "magnetGame = playingGame\<lparr>powerUps :=
     [\<lparr>ptype = Some Magnet, ppos = \<lparr>posX = 105, posY = 300\<rparr>, collected = False, pulse = 0\<rparr>]\<rparr>"


text \<open>
  An obstacle away from the ball, and a run with three of them, one below the maximum of
  the first tier.
\<close>

definition farObstacle :: Obstacle where
  "farObstacle = \<lparr>otype = Some Spinner, opos = \<lparr>posX = 300, posY = 100\<rparr>, width = 40,
                  height = 70, rotation = 0, speed = 3, phase = 0\<rparr>"

definition crowdedGame :: Game where
  "crowdedGame = playingGame\<lparr>obstacles := [farObstacle, farObstacle, farObstacle]\<rparr>"

text \<open>\<open>farObstacle\<close> after one frame of the normal length.\<close>

definition movedFar :: Obstacle where
  "movedFar = \<lparr>otype = Some Spinner, opos = \<lparr>posX = 297, posY = 100\<rparr>, width = 40,
               height = 70, rotation = 4, speed = 3, phase = 0.05\<rparr>"

text \<open>A run with a storm active, whose timer is due at time 4000.\<close>

definition stormGame :: Game where
  "stormGame = playingGame\<lparr>isEventActive := True, activeEventType := Some Storm,
                             eventTimeouts := [4000]\<rparr>"

text \<open>
  A run with one obstacle and a slow power-up in range; \<open>slowGame1\<close> is the state after the
  frame at 1016.66 that picks it up, \<open>slowGame2\<close> the state after one more frame and a tap.
\<close>

definition slowGame :: Game where
  "slowGame = playingGame\<lparr>obstacles := [farObstacle], powerUps :=
     [\<lparr>ptype = Some Slow, ppos = \<lparr>posX = 105, posY = 300\<rparr>, collected = False, pulse = 0\<rparr>]\<rparr>"

definition slowGame1 :: Game where
  "slowGame1 = slowGame
     \<lparr>score := 1, combo := 1, ballPos := \<lparr>posX = 100, posY = 300.4\<rparr>,
      ballVel := \<lparr>velX = 0, velY = 0.4\<rparr>,
      obstacles := [\<lparr>otype = Some Spinner, opos = \<lparr>posX = 297, posY = 100\<rparr>, width = 40,
                     height = 70, rotation = 4, speed = 1.8, phase = 0.05\<rparr>],
      powerUps := [\<lparr>ptype = Some Slow, ppos = \<lparr>posX = 102.5, posY = 300\<rparr>,
                    collected = True, pulse = 0.15\<rparr>],
      prevTime := Some 1016.66, slowTimeout := Some 4016.66,
      effects := [CreateParticles \<lparr>posX = 102.5, posY = 300\<rparr> 15 ''#32CD32'' False]\<rparr>"

definition slowGame2 :: Game where
  "slowGame2 = slowGame1
     \<lparr>score := 2, combo := 2, ballPos := \<lparr>posX = 100, posY = 301.2\<rparr>,
      ballVel := \<lparr>velX = 0, velY = 0.8\<rparr>, gravityDir := - 1,
      obstacles := [\<lparr>otype = Some Spinner, opos = \<lparr>posX = 295.2, posY = 100\<rparr>, width = 40,
                     height = 70, rotation = 6.4, speed = 1.8, phase = 0.1\<rparr>],
      powerUps := [\<lparr>ptype = Some Slow, ppos = \<lparr>posX = 100, posY = 300\<rparr>,
                    collected = True, pulse = 0.3\<rparr>],
      shake := 6, prevTime := Some 1033.32,
      effects := [CreateParticles \<lparr>posX = 102.5, posY = 300\<rparr> 15 ''#32CD32'' False,
                  CreateParticles \<lparr>posX = 100, posY = 301.2\<rparr> 8 ''#FFB6C1'' False]\<rparr>"

section \<open>Auxiliary facts\<close>

lemmas constants =
  CANVAS_WIDTH_def CANVAS_HEIGHT_def BALL_RADIUS_def BASE_GRAVITY_FORCE_def
  MAX_VELOCITY_def POWERUP_COLLECTION_RADIUS_SQUARED_def BOUNCE_DAMPING_def
  SHIELD_DURATION_def SLOW_MOTION_DURATION_def

lemma collectLoop_eq:
  "collectLoop now ball ps a =
     (map (\<lambda>p. if pickedUp ball p then p\<lparr>collected := True\<rparr> else p) ps,
      (\<exists>p \<in> set ps. pickedUp ball p),
      fold (applyPowerUp now) (filter (pickedUp ball) ps) a)"
  by (induction ps arbitrary: a) (auto simp: pickedUp_def)

lemma applyPowerUp_frame:
  "gameState (applyPowerUp now p a) = gameState a"
  "gravityDir (applyPowerUp now p a) = gravityDir a"
  "ballPos (applyPowerUp now p a) = ballPos a"
  "ballVel (applyPowerUp now p a) = ballVel a"
  "currentLevelIndex (applyPowerUp now p a) = currentLevelIndex a"
  "speedMultiplier (applyPowerUp now p a) = speedMultiplier a"
  "isEventActive (applyPowerUp now p a) = isEventActive a"
  "activeEventType (applyPowerUp now p a) = activeEventType a"
  "eventTimeouts (applyPowerUp now p a) = eventTimeouts a"
  by (simp_all add: applyPowerUp_def Let_def split: option.splits PowerUpType.splits)

lemma fold_applyPowerUp_frame:
  "gameState (fold (applyPowerUp now) ps a) = gameState a \<and>
   gravityDir (fold (applyPowerUp now) ps a) = gravityDir a \<and>
   ballPos (fold (applyPowerUp now) ps a) = ballPos a \<and>
   ballVel (fold (applyPowerUp now) ps a) = ballVel a \<and>
   currentLevelIndex (fold (applyPowerUp now) ps a) = currentLevelIndex a \<and>
   speedMultiplier (fold (applyPowerUp now) ps a) = speedMultiplier a \<and>
   isEventActive (fold (applyPowerUp now) ps a) = isEventActive a \<and>
   activeEventType (fold (applyPowerUp now) ps a) = activeEventType a \<and>
   eventTimeouts (fold (applyPowerUp now) ps a) = eventTimeouts a"
  by (induction ps arbitrary: a) (simp_all add: applyPowerUp_frame)

lemma collectPowerUps_frame:
  "gameState (collectPowerUps now ball a) = gameState a"
  "gravityDir (collectPowerUps now ball a) = gravityDir a"
  "ballPos (collectPowerUps now ball a) = ballPos a"
  "ballVel (collectPowerUps now ball a) = ballVel a"
  "currentLevelIndex (collectPowerUps now ball a) = currentLevelIndex a"
  "speedMultiplier (collectPowerUps now ball a) = speedMultiplier a"
  "isEventActive (collectPowerUps now ball a) = isEventActive a"
  "activeEventType (collectPowerUps now ball a) = activeEventType a"
  "eventTimeouts (collectPowerUps now ball a) = eventTimeouts a"
  by (simp_all add: collectPowerUps_def collectLoop_eq fold_applyPowerUp_frame)

lemma triggerRandomEvent_frame:
  "gameState (triggerRandomEvent now rnd s a) = gameState a"
  "gravityDir (triggerRandomEvent now rnd s a) = gravityDir a"
  "ballPos (triggerRandomEvent now rnd s a) = ballPos a"
  "ballVel (triggerRandomEvent now rnd s a) = ballVel a"
  "obstacles (triggerRandomEvent now rnd s a) = obstacles a"
  "powerUps (triggerRandomEvent now rnd s a) = powerUps a"
  "score (triggerRandomEvent now rnd s a) = score a"
  "combo (triggerRandomEvent now rnd s a) = combo a"
  by (simp_all add: triggerRandomEvent_def)

lemma physicsPhase_frame:
  "gameState (physicsPhase dt s a) = gameState a"
  "obstacles (physicsPhase dt s a) = obstacles a"
  "powerUps (physicsPhase dt s a) = powerUps a"
  "score (physicsPhase dt s a) = score a"
  "combo (physicsPhase dt s a) = combo a"
  "isEventActive (physicsPhase dt s a) = isEventActive a"
  "activeEventType (physicsPhase dt s a) = activeEventType a"
  "eventTimeouts (physicsPhase dt s a) = eventTimeouts a"
  by (simp_all add: physicsPhase_def Let_def)

lemma not_both_boundaries: "\<not> (hitsTop dt s \<and> hitsBottom dt s)"
  by (auto simp: hitsTop_def hitsBottom_def)

lemma pattern_index:
  assumes "0 \<le> (r::real)" and "r < 1"
  shows "0 \<le> \<lfloor>r * 4\<rfloor> \<and> nat \<lfloor>r * 4\<rfloor> < 4"
proof -
  have "0 \<le> r * 4" using assms by simp
  then have lo: "0 \<le> \<lfloor>r * 4\<rfloor>" by simp
  have "r * 4 < 4" using assms by simp
  then have "\<lfloor>r * 4\<rfloor> < 4" by (simp add: floor_less_iff)
  with lo show ?thesis by linarith
qed

lemma PATTERNS_length: "i < 4 \<Longrightarrow> length (PATTERNS ! i) = 3"
proof -
  assume "i < 4"
  then have "i = 0 \<or> i = 1 \<or> i = 2 \<or> i = 3" by auto
  then show ?thesis by (auto simp: PATTERNS_def)
qed

lemma generateObstaclePattern_three:
  assumes "0 \<le> patternPick rnd" and "patternPick rnd < 1"
  shows "\<exists>obs. generateObstaclePattern rnd levelConfig s = Inr obs \<and> length obs = 3"
proof -
  have len: "length PATTERNS = 4" by (simp add: PATTERNS_def)
  from pattern_index[OF assms] have i: "0 \<le> \<lfloor>patternPick rnd * 4\<rfloor>" "nat \<lfloor>patternPick rnd * 4\<rfloor> < 4"
    by simp_all
  then have "pickAt PATTERNS (patternPick rnd) = Some (PATTERNS ! nat \<lfloor>patternPick rnd * 4\<rfloor>)"
    by (simp add: pickAt_def len Let_def)
  then show ?thesis
    using PATTERNS_length[OF i(2)] by (simp add: generateObstaclePattern_def)
qed

lemma spawnObstacles_returns:
  assumes "0 \<le> patternPick rnd" and "patternPick rnd < 1"
  shows "\<exists>obs. spawnObstacles rnd dt levelConfig s = Inr obs \<and>
           length obs = (if spawnFires rnd dt levelConfig s
                         then (if patternRoll rnd < 0.25 then 3 else 1) else 0)"
  using generateObstaclePattern_three[OF assms, of levelConfig s]
  by (auto simp: spawnObstacles_def)

lemma gameLoop_eq:
  assumes "gameState s = Playing" and "levelAt (currentLevelIndex s) = Some levelConfig"
    and "spawnObstacles rnd (deltaRatio timestamp s) levelConfig s = Inr newObstacles"
  shows "gameLoop rnd timestamp s =
     Inr (collectPowerUps timestamp (ballPos s)
       (collisionPhase (ballPos (physicsPhase (deltaRatio timestamp s) s (s\<lparr>prevTime := Some timestamp\<rparr>))) s
         (worldPhase rnd (deltaRatio timestamp s) levelConfig newObstacles s
           (eventPhase rnd timestamp (deltaRatio timestamp s) levelConfig s
             (physicsPhase (deltaRatio timestamp s) s (s\<lparr>prevTime := Some timestamp\<rparr>))))))"
  using assms by (simp add: gameLoop_def Let_def)

lemma gameLoop_returns:
  assumes "currentLevelIndex s < length LEVELS"
    and "0 \<le> patternPick rnd" and "patternPick rnd < 1"
  shows "\<exists>s'. gameLoop rnd timestamp s = Inr s'"
proof (cases "gameState s = Playing")
  case False
  then show ?thesis by (simp add: gameLoop_def)
next
  case True
  from assms(1) obtain levelConfig where lc: "levelAt (currentLevelIndex s) = Some levelConfig"
    by (simp add: levelAt_def)
  from spawnObstacles_returns[OF assms(2,3)] obtain obs
    where "spawnObstacles rnd (deltaRatio timestamp s) levelConfig s = Inr obs" by blast
  from gameLoop_eq[OF True lc this] show ?thesis by blast
qed

lemma eventPhase_frame:
  "gameState (eventPhase rnd ts dt lc s a) = gameState a"
  "gravityDir (eventPhase rnd ts dt lc s a) = gravityDir a"
  "ballPos (eventPhase rnd ts dt lc s a) = ballPos a"
  "ballVel (eventPhase rnd ts dt lc s a) = ballVel a"
  "obstacles (eventPhase rnd ts dt lc s a) = obstacles a"
  "powerUps (eventPhase rnd ts dt lc s a) = powerUps a"
  "score (eventPhase rnd ts dt lc s a) = score a"
  "combo (eventPhase rnd ts dt lc s a) = combo a"
  "currentLevelIndex (eventPhase rnd ts dt lc s a) = currentLevelIndex a"
  "speedMultiplier (eventPhase rnd ts dt lc s a) = speedMultiplier a"
  by (simp_all add: eventPhase_def triggerRandomEvent_def)

lemma worldPhase_frame:
  "gameState (worldPhase rnd dt lc new s a) = gameState a"
  "gravityDir (worldPhase rnd dt lc new s a) = gravityDir a"
  "ballPos (worldPhase rnd dt lc new s a) = ballPos a"
  "ballVel (worldPhase rnd dt lc new s a) = ballVel a"
  "currentLevelIndex (worldPhase rnd dt lc new s a) = currentLevelIndex a"
  "speedMultiplier (worldPhase rnd dt lc new s a) = speedMultiplier a"
  "isEventActive (worldPhase rnd dt lc new s a) = isEventActive a"
  "activeEventType (worldPhase rnd dt lc new s a) = activeEventType a"
  "eventTimeouts (worldPhase rnd dt lc new s a) = eventTimeouts a"
  by (simp_all add: worldPhase_def)

lemma collisionPhase_frame:
  "gravityDir (collisionPhase pos s a) = gravityDir a"
  "ballPos (collisionPhase pos s a) = ballPos a"
  "ballVel (collisionPhase pos s a) = ballVel a"
  "obstacles (collisionPhase pos s a) = obstacles a"
  "powerUps (collisionPhase pos s a) = powerUps a"
  "score (collisionPhase pos s a) = score a"
  "combo (collisionPhase pos s a) = combo a"
  "currentLevelIndex (collisionPhase pos s a) = currentLevelIndex a"
  "speedMultiplier (collisionPhase pos s a) = speedMultiplier a"
  "isEventActive (collisionPhase pos s a) = isEventActive a"
  "activeEventType (collisionPhase pos s a) = activeEventType a"
  "eventTimeouts (collisionPhase pos s a) = eventTimeouts a"
  by (simp_all add: collisionPhase_def)

lemmas frame = collectPowerUps_frame collisionPhase_frame worldPhase_frame eventPhase_frame
  physicsPhase_frame

lemma gameLoop_physics:
  assumes "gameState s = Playing" and "gameLoop rnd timestamp s = Inr s'"
  shows "ballPos s' = ballPos (physicsPhase (deltaRatio timestamp s) s s) \<and>
         ballVel s' = ballVel (physicsPhase (deltaRatio timestamp s) s s) \<and>
         gravityDir s' = gravityDir (physicsPhase (deltaRatio timestamp s) s s)"
proof -
  from assms obtain levelConfig newObstacles
    where "levelAt (currentLevelIndex s) = Some levelConfig"
      and "spawnObstacles rnd (deltaRatio timestamp s) levelConfig s = Inr newObstacles"
    by (auto simp: gameLoop_def Let_def split: option.splits sum.splits)
  from gameLoop_eq[OF assms(1) this] assms(2) show ?thesis
    by (auto simp: frame physicsPhase_def Let_def)
qed

lemma tentativeVelY_bound:
  "0 \<le> speedMultiplier s \<Longrightarrow> \<bar>tentativeVelY dt s\<bar> \<le> MAX_VELOCITY * speedMultiplier s"
  by (auto simp: tentativeVelY_def Let_def MAX_VELOCITY_def)

lemma physicsPhase_vel_bound:
  "0 \<le> speedMultiplier s \<Longrightarrow>
     \<bar>velY (ballVel (physicsPhase dt s a))\<bar> \<le> MAX_VELOCITY * speedMultiplier s"
  using tentativeVelY_bound[of s dt]
  by (auto simp: physicsPhase_def Let_def BOUNCE_DAMPING_def abs_mult)

lemma deltaRatio_range: "0.1 \<le> deltaRatio timestamp s \<and> deltaRatio timestamp s \<le> 2"
  by (simp add: deltaRatio_def Let_def)

lemma gameLoop_speedMultiplier:
  assumes "gameLoop rnd timestamp s = Inr s'"
  shows "speedMultiplier s' = speedMultiplier s \<and> currentLevelIndex s' = currentLevelIndex s"
proof (cases "gameState s = Playing")
  case False
  with assms show ?thesis by (simp add: gameLoop_def)
next
  case True
  from assms True obtain levelConfig newObstacles
    where "levelAt (currentLevelIndex s) = Some levelConfig"
      and "spawnObstacles rnd (deltaRatio timestamp s) levelConfig s = Inr newObstacles"
    by (auto simp: gameLoop_def Let_def split: option.splits sum.splits)
  from gameLoop_eq[OF True this] assms show ?thesis
    by (auto simp: frame physicsPhase_def Let_def)
qed

lemma shield_no_collision: "\<not> checkObstacleCollisions True pos obs"
  by (induction obs) (simp_all add: Let_def)

lemma applyPowerUp_score:
  "score (applyPowerUp now p a) = score a + (if ptype p = Some Magnet then 500 else 0)"
  "combo (applyPowerUp now p a) = combo a + (if ptype p = Some Magnet then 5 else 0)"
  "obstacles (applyPowerUp now p a) =
     (if ptype p = Some Slow then map slowObstacle (obstacles a) else obstacles a)"
  by (simp_all add: applyPowerUp_def Let_def split: option.splits PowerUpType.splits)

lemma fold_applyPowerUp_score:
  "score (fold (applyPowerUp now) ps a) =
     score a + 500 * int (length (filter (\<lambda>p. ptype p = Some Magnet) ps))"
  by (induction ps arbitrary: a) (simp_all add: applyPowerUp_score)

lemma fold_applyPowerUp_combo:
  "combo (fold (applyPowerUp now) ps a) =
     combo a + 5 * int (length (filter (\<lambda>p. ptype p = Some Magnet) ps))"
  by (induction ps arbitrary: a) (simp_all add: applyPowerUp_score)

lemma fold_applyPowerUp_obstacles:
  "obstacles (fold (applyPowerUp now) ps a) =
     map (slowObstacle ^^ length (filter (\<lambda>p. ptype p = Some Slow) ps)) (obstacles a)"
proof (induction ps arbitrary: a)
  case Nil
  then show ?case by simp
next
  case (Cons p ps)
  show ?case
    by (simp add: Cons.IH applyPowerUp_score funpow_swap1 del: funpow.simps)
       (simp add: funpow_swap1)
qed

lemma collectPowerUps_score:
  "score (collectPowerUps now ball a) =
     score a + 500 * int (length (filter (\<lambda>p. pickedUp ball p \<and> ptype p = Some Magnet) (powerUps a)))"
proof -
  have "length (filter (\<lambda>p. ptype p = Some Magnet) (filter (pickedUp ball) (rev (powerUps a)))) =
        length (filter (\<lambda>p. pickedUp ball p \<and> ptype p = Some Magnet) (powerUps a))"
    by (simp add: conj_commute flip: rev_filter)
  then show ?thesis
    by (simp add: collectPowerUps_def collectLoop_eq fold_applyPowerUp_score)
qed

lemma collectPowerUps_combo:
  "combo (collectPowerUps now ball a) =
     combo a + 5 * int (length (filter (\<lambda>p. pickedUp ball p \<and> ptype p = Some Magnet) (powerUps a)))"
proof -
  have "length (filter (\<lambda>p. ptype p = Some Magnet) (filter (pickedUp ball) (rev (powerUps a)))) =
        length (filter (\<lambda>p. pickedUp ball p \<and> ptype p = Some Magnet) (powerUps a))"
    by (simp add: conj_commute flip: rev_filter)
  then show ?thesis
    by (simp add: collectPowerUps_def collectLoop_eq fold_applyPowerUp_combo)
qed

lemma collectPowerUps_obstacles:
  "obstacles (collectPowerUps now ball a) =
     map (slowObstacle ^^ length (filter (\<lambda>p. pickedUp ball p \<and> ptype p = Some Slow) (powerUps a)))
       (obstacles a)"
proof -
  have "length (filter (\<lambda>p. ptype p = Some Slow) (filter (pickedUp ball) (rev (powerUps a)))) =
        length (filter (\<lambda>p. pickedUp ball p \<and> ptype p = Some Slow) (powerUps a))"
    by (simp add: conj_commute flip: rev_filter)
  then show ?thesis
    by (simp add: collectPowerUps_def collectLoop_eq fold_applyPowerUp_obstacles)
qed

lemma collectPowerUps_powerUps:
  "powerUps (collectPowerUps now ball a) =
     (if \<exists>p \<in> set (powerUps a). pickedUp ball p
      then filter (\<lambda>p. \<not> collected p \<or> posX (ppos p) > -50)
             (map (\<lambda>p. if pickedUp ball p then p\<lparr>collected := True\<rparr> else p) (powerUps a))
      else powerUps a)"
  by (simp add: collectPowerUps_def collectLoop_eq rev_map)

lemma pickedUp_not_far_left:
  assumes "pickedUp ball p" and "- 20 \<le> posX ball"
  shows "posX (ppos p) > - 50"
proof (rule ccontr)
  assume "\<not> posX (ppos p) > - 50"
  then have d: "30 \<le> posX ball - posX (ppos p)" using assms(2) by simp
  then have big: "30 * 30 \<le> (posX ball - posX (ppos p)) * (posX ball - posX (ppos p))"
    by (intro mult_mono) simp_all
  have sq: "0 \<le> (posY ball - posY (ppos p)) * (posY ball - posY (ppos p))" by simp
  from assms(1) have "(posX ball - posX (ppos p)) * (posX ball - posX (ppos p)) +
      (posY ball - posY (ppos p)) * (posY ball - posY (ppos p)) < 900"
    by (simp add: pickedUp_def inPickupRange_def Let_def POWERUP_COLLECTION_RADIUS_SQUARED_def)
  with big sq show False by linarith
qed

lemma collectPowerUps_marks:
  assumes "p \<in> set (powerUps a)" and "pickedUp ball p" and "- 20 \<le> posX ball"
  shows "p\<lparr>collected := True\<rparr> \<in> set (powerUps (collectPowerUps now ball a))"
proof -
  from assms(1,2) have ex: "\<exists>p \<in> set (powerUps a). pickedUp ball p" by blast
  have "posX (ppos (p\<lparr>collected := True\<rparr>)) > - 50"
    using pickedUp_not_far_left[OF assms(2,3)] by simp
  moreover have "p\<lparr>collected := True\<rparr> \<in>
      set (map (\<lambda>p. if pickedUp ball p then p\<lparr>collected := True\<rparr> else p) (powerUps a))"
    using assms(1,2) by (force simp: image_iff)
  ultimately show ?thesis
    by (simp add: collectPowerUps_powerUps ex del: set_map)
qed

lemma gameLoop_tick:
  assumes "gameState s = Playing" and "levelAt (currentLevelIndex s) = Some levelConfig"
    and "0 \<le> patternPick rnd" and "patternPick rnd < 1"
  shows "\<exists>s' newObstacles.
     gameLoop rnd timestamp s = Inr s' \<and>
     spawnObstacles rnd (deltaRatio timestamp s) levelConfig s = Inr newObstacles \<and>
     length newObstacles =
       (if spawnFires rnd (deltaRatio timestamp s) levelConfig s
        then (if patternRoll rnd < 0.25 then 3 else 1) else 0) \<and>
     obstacles s' =
       map (slowObstacle ^^
              length (filter (\<lambda>p. pickedUp (ballPos s) p \<and> ptype p = Some Slow)
                        (pendingPowerUps rnd (deltaRatio timestamp s) levelConfig s)))
         (advanceObstacles (deltaRatio timestamp s) s (obstacles s) @ newObstacles) \<and>
     score s' = score s + round_js (deltaRatio timestamp s) +
       500 * int (length (filter (\<lambda>p. pickedUp (ballPos s) p \<and> ptype p = Some Magnet)
                            (pendingPowerUps rnd (deltaRatio timestamp s) levelConfig s))) \<and>
     combo s' = combo s + round_js (deltaRatio timestamp s) +
       5 * int (length (filter (\<lambda>p. pickedUp (ballPos s) p \<and> ptype p = Some Magnet)
                          (pendingPowerUps rnd (deltaRatio timestamp s) levelConfig s))) \<and>
     gameState s' =
       (if checkObstacleCollisions (invulnerable s) (ballPos s') (obstacles s)
        then GameOver else Playing) \<and>
     (- 20 \<le> posX (ballPos s) \<longrightarrow>
        (\<forall>p \<in> set (pendingPowerUps rnd (deltaRatio timestamp s) levelConfig s).
           pickedUp (ballPos s) p \<longrightarrow> p\<lparr>collected := True\<rparr> \<in> set (powerUps s')))"
proof -
  let ?dt = "deltaRatio timestamp s"
  let ?a1 = "physicsPhase ?dt s (s\<lparr>prevTime := Some timestamp\<rparr>)"
  from spawnObstacles_returns[OF assms(3,4), of ?dt levelConfig s] obtain newObstacles
    where new: "spawnObstacles rnd ?dt levelConfig s = Inr newObstacles"
      and len: "length newObstacles =
         (if spawnFires rnd ?dt levelConfig s then (if patternRoll rnd < 0.25 then 3 else 1) else 0)"
    by blast
  let ?a4 = "collisionPhase (ballPos ?a1) s
               (worldPhase rnd ?dt levelConfig newObstacles s
                  (eventPhase rnd timestamp ?dt levelConfig s ?a1))"
  let ?s' = "collectPowerUps timestamp (ballPos s) ?a4"
  have loop: "gameLoop rnd timestamp s = Inr ?s'"
    by (rule gameLoop_eq[OF assms(1,2) new])
  have pu: "powerUps ?a4 = pendingPowerUps rnd ?dt levelConfig s"
    by (simp add: collisionPhase_frame worldPhase_def eventPhase_frame physicsPhase_frame
        pendingPowerUps_def)
  have ob: "obstacles ?a4 = advanceObstacles ?dt s (obstacles s) @ newObstacles"
    by (simp add: collisionPhase_frame worldPhase_def eventPhase_frame physicsPhase_frame)
  have sc: "score ?a4 = score s + round_js ?dt" "combo ?a4 = combo s + round_js ?dt"
    by (simp_all add: collisionPhase_frame worldPhase_def eventPhase_frame physicsPhase_frame)
  have pos: "ballPos ?s' = ballPos ?a1"
    by (simp add: frame)
  have gs: "gameState ?s' =
      (if checkObstacleCollisions (invulnerable s) (ballPos ?s') (obstacles s)
       then GameOver else Playing)"
    unfolding pos using assms(1)
    by (simp add: collectPowerUps_frame collisionPhase_def worldPhase_frame eventPhase_frame
        physicsPhase_frame)
  have marks: "- 20 \<le> posX (ballPos s) \<longrightarrow>
        (\<forall>p \<in> set (pendingPowerUps rnd ?dt levelConfig s).
           pickedUp (ballPos s) p \<longrightarrow> p\<lparr>collected := True\<rparr> \<in> set (powerUps ?s'))"
    using collectPowerUps_marks[of _ ?a4 "ballPos s" timestamp] unfolding pu by blast
  show ?thesis
    using loop new len gs marks
      collectPowerUps_obstacles[of timestamp "ballPos s" ?a4]
      collectPowerUps_score[of timestamp "ballPos s" ?a4]
      collectPowerUps_combo[of timestamp "ballPos s" ?a4]
    unfolding pu ob sc by blast
qed

lemmas examples = quietRnd_def playingGame_def initialGame_def blocker_def shieldedGame_def
  magnetGame_def farObstacle_def crowdedGame_def patternRnd_def topGame_def bottomGame_def

lemmas tick_defs = gameLoop_def levelAt_def LEVELS_def deltaRatio_def
    physicsPhase_def hitsTop_def hitsBottom_def tentativePosY_def tentativeVelY_def constants
    spawnObstacles_def spawnFires_def dynamicObstacleChance_def generateObstaclePattern_def
    generateObstacle_def generatePowerUp_def eventPhase_def worldPhase_def collisionPhase_def
    triggerRandomEvent_def
    pickAt_def PATTERNS_def patternSlot_def advanceObstacles_def advancePowerUps_def
    spawnPowerUps_def onScreen_def moveObstacle_def inPickupRange_def applyPowerUp_def
    collectPowerUps_def round_js_def obstacleSpeed_def obstacleWidth_def obstacleHeight_def
    Let_def

lemma unshielded_collision_ends_run:
  "\<exists>s'. gameLoop quietRnd 1016.66 (shieldedGame\<lparr>invulnerable := False\<rparr>) = Inr s' \<and>
        gameState s' = GameOver"
  by (simp add: examples tick_defs)



lemma obstacleMax_mono:
  assumes "i + 1 < length LEVELS"
  shows "obstacleMax (LEVELS ! i) \<le> obstacleMax (LEVELS ! (i + 1))"
proof -
  from assms have "i = 0 \<or> i = 1 \<or> i = 2 \<or> i = 3" by (auto simp: LEVELS_def)
  then show ?thesis by (auto simp: LEVELS_def)
qed

lemma length_advanceObstacles: "length (advanceObstacles dt s obs) \<le> length obs"
  using length_filter_le[of onScreen "map (moveObstacle dt s) obs"]
  by (simp add: advanceObstacles_def)

lemma levelAdvance_cases:
  "(currentLevelIndex s + 1 < length LEVELS \<and>
      thresholdScore (LEVELS ! (currentLevelIndex s + 1)) \<le> score s \<longrightarrow>
      levelAdvance s = s\<lparr>currentLevelIndex := currentLevelIndex s + 1,
                          effects := effects s @ [tierAdvanceSignal]\<rparr>) \<and>
   (\<not> (currentLevelIndex s + 1 < length LEVELS \<and>
      thresholdScore (LEVELS ! (currentLevelIndex s + 1)) \<le> score s) \<longrightarrow>
      levelAdvance s = s)"
  by (simp add: levelAdvance_def Let_def)

lemma levelAdvance_score: "score (levelAdvance s) = score s"
  by (simp add: levelAdvance_def Let_def)

declare levelSettle.simps [simp del]

lemma levelSettle_props:
  "currentLevelIndex s \<le> currentLevelIndex (levelSettle s) \<and>
   score (levelSettle s) = score s \<and>
   effects (levelSettle s) =
     effects s @ replicate (currentLevelIndex (levelSettle s) - currentLevelIndex s)
                   tierAdvanceSignal \<and>
   levelAdvance (levelSettle s) = levelSettle s"
proof (induction s rule: levelSettle.induct)
  case (1 s)
  show ?case
  proof (cases "currentLevelIndex (levelAdvance s) = currentLevelIndex s")
    case True
    then have same: "levelAdvance s = s"
      using levelAdvance_cases[of s] by auto
    then have "levelSettle s = s"
      by (subst levelSettle.simps) (simp add: Let_def)
    with same show ?thesis by simp
  next
    case False
    then have adv: "levelAdvance s = s\<lparr>currentLevelIndex := currentLevelIndex s + 1,
                          effects := effects s @ [tierAdvanceSignal]\<rparr>"
      using levelAdvance_cases[of s] by auto
    have unfold: "levelSettle s = levelSettle (levelAdvance s)"
      using False by (subst levelSettle.simps) (simp add: Let_def)
    from "1.IH"[OF refl False] have IH:
      "currentLevelIndex (levelAdvance s) \<le> currentLevelIndex (levelSettle (levelAdvance s))"
      "score (levelSettle (levelAdvance s)) = score (levelAdvance s)"
      "effects (levelSettle (levelAdvance s)) =
         effects (levelAdvance s) @
         replicate (currentLevelIndex (levelSettle (levelAdvance s)) -
                    currentLevelIndex (levelAdvance s)) tierAdvanceSignal"
      "levelAdvance (levelSettle (levelAdvance s)) = levelSettle (levelAdvance s)"
      by simp_all
    have idx: "currentLevelIndex (levelAdvance s) = currentLevelIndex s + 1"
      and eff: "effects (levelAdvance s) = effects s @ [tierAdvanceSignal]"
      by (simp_all add: adv)
    have le: "currentLevelIndex s + 1 \<le> currentLevelIndex (levelSettle (levelAdvance s))"
      using IH(1) idx by simp
    have "effects s @ [tierAdvanceSignal] @
            replicate (currentLevelIndex (levelSettle (levelAdvance s)) - (currentLevelIndex s + 1))
              tierAdvanceSignal =
          effects s @ replicate (currentLevelIndex (levelSettle (levelAdvance s)) - currentLevelIndex s)
              tierAdvanceSignal"
      using le by (simp flip: replicate_Suc add: Suc_diff_le)
    then show ?thesis
      unfolding unfold using IH le by (simp add: idx eff levelAdvance_score)
  qed
qed

lemma levelSettle_fixpoint: "levelAdvance s = s \<Longrightarrow> levelSettle s = s"
  by (subst levelSettle.simps) (simp add: Let_def)

lemma levelRun_append: "levelRun (xs @ ys) s = levelRun ys (levelRun xs s)"
  by (induction xs arbitrary: s) simp_all

lemma levelRun_props:
  "currentLevelIndex s \<le> currentLevelIndex (levelRun scores s) \<and>
   effects (levelRun scores s) =
     effects s @ replicate (currentLevelIndex (levelRun scores s) - currentLevelIndex s)
                   tierAdvanceSignal"
proof (induction scores arbitrary: s)
  case Nil
  show ?case by simp
next
  case (Cons newScore rest)
  let ?t = "levelSettle (s\<lparr>score := newScore\<rparr>)"
  from levelSettle_props[of "s\<lparr>score := newScore\<rparr>"]
  have t: "currentLevelIndex s \<le> currentLevelIndex ?t"
    "effects ?t = effects s @ replicate (currentLevelIndex ?t - currentLevelIndex s) tierAdvanceSignal"
    by simp_all
  from Cons.IH[of ?t]
  have r: "currentLevelIndex ?t \<le> currentLevelIndex (levelRun rest ?t)"
    "effects (levelRun rest ?t) =
       effects ?t @ replicate (currentLevelIndex (levelRun rest ?t) - currentLevelIndex ?t)
                      tierAdvanceSignal"
    by simp_all
  have "replicate (currentLevelIndex ?t - currentLevelIndex s) tierAdvanceSignal @
        replicate (currentLevelIndex (levelRun rest ?t) - currentLevelIndex ?t) tierAdvanceSignal =
        replicate (currentLevelIndex (levelRun rest ?t) - currentLevelIndex s) tierAdvanceSignal"
    using t(1) r(1) by (simp flip: replicate_add)
  then show ?case using t r by simp
qed

lemma levelRun_settled:
  assumes "scores \<noteq> []"
  shows "levelAdvance (levelRun scores s) = levelRun scores s \<and>
         score (levelRun scores s) = last scores"
  using assms
proof (induction scores arbitrary: s)
  case Nil
  then show ?case by simp
next
  case (Cons newScore rest)
  show ?case
  proof (cases "rest = []")
    case True
    then show ?thesis using levelSettle_props[of "s\<lparr>score := newScore\<rparr>"] by simp
  next
    case False
    with Cons.IH[of "levelSettle (s\<lparr>score := newScore\<rparr>)"] show ?thesis by simp
  qed
qed

lemma levelRun_same_score:
  "levelRun (scores @ [newScore, newScore]) s = levelRun (scores @ [newScore]) s"
proof -
  let ?t = "levelRun (scores @ [newScore]) s"
  from levelRun_settled[of "scores @ [newScore]" s]
  have stable: "levelAdvance ?t = ?t" and sc: "score ?t = newScore" by simp_all
  have "?t\<lparr>score := newScore\<rparr> = ?t" using sc by (metis Game.surjective Game.update_convs(2))
  then have "levelSettle (?t\<lparr>score := newScore\<rparr>) = ?t"
    using levelSettle_fixpoint[OF stable] by simp
  moreover have "levelRun (scores @ [newScore, newScore]) s = levelRun [newScore] ?t"
    using levelRun_append[of "scores @ [newScore]" "[newScore]" s] by simp
  ultimately show ?thesis by simp
qed

lemma gameLoop_event:
  assumes "gameState s = Playing" and "levelAt (currentLevelIndex s) = Some levelConfig"
    and "gameLoop rnd timestamp s = Inr s'"
  shows "isEventActive s' =
           isEventActive (eventPhase rnd timestamp (deltaRatio timestamp s) levelConfig s s) \<and>
         activeEventType s' =
           activeEventType (eventPhase rnd timestamp (deltaRatio timestamp s) levelConfig s s) \<and>
         eventTimeouts s' =
           eventTimeouts (eventPhase rnd timestamp (deltaRatio timestamp s) levelConfig s s)"
proof -
  from assms obtain newObstacles
    where "spawnObstacles rnd (deltaRatio timestamp s) levelConfig s = Inr newObstacles"
    by (auto simp: gameLoop_def Let_def split: sum.splits)
  from gameLoop_eq[OF assms(1,2) this] assms(3) show ?thesis
    by (auto simp: collectPowerUps_frame collisionPhase_frame worldPhase_frame
        eventPhase_def triggerRandomEvent_def physicsPhase_frame)
qed

lemma fold_eventTimeoutCallback:
  "fold (\<lambda>_. eventTimeoutCallback) xs a = (if xs = [] then a else eventTimeoutCallback a)"
  by (induction xs arbitrary: a) (simp_all add: eventTimeoutCallback_def)

lemma map_filter_if:
  "List.map_filter (\<lambda>x. if P (g x) then Some (g x) else None) xs = filter P (map g xs)"
  by (induction xs) (simp_all add: List.map_filter_simps)

lemma map_filter_Some: "List.map_filter Some xs = xs"
  by (induction xs) (simp_all add: List.map_filter_simps)

lemma map_filter_bind:
  "List.map_filter g (List.map_filter f xs) =
   List.map_filter (\<lambda>x. case f x of None \<Rightarrow> None | Some y \<Rightarrow> g y) xs"
  by (induction xs) (simp_all add: List.map_filter_simps split: option.splits)

lemma map_filter_append:
  "List.map_filter f (xs @ ys) = List.map_filter f xs @ List.map_filter f ys"
  by (simp add: List.map_filter_def)

lemma moveObstacle_speed: "speed (moveObstacle dt s obs) = speed obs"
  by (simp add: moveObstacle_def Let_def split: option.splits ObstacleType.splits)

lemma gameLoop_obstacles:
  assumes "gameState s = Playing" and "gameLoop rnd timestamp s = Inr s'"
  shows "\<exists>newObstacles. obstacles s' =
           map (slowObstacle ^^ slowPickups rnd timestamp s)
             (advanceObstacles (deltaRatio timestamp s) s (obstacles s) @ newObstacles)"
proof -
  from assms obtain levelConfig newObstacles
    where lc: "levelAt (currentLevelIndex s) = Some levelConfig"
      and new: "spawnObstacles rnd (deltaRatio timestamp s) levelConfig s = Inr newObstacles"
    by (auto simp: gameLoop_def Let_def split: option.splits sum.splits)
  let ?a4 = "collisionPhase
      (ballPos (physicsPhase (deltaRatio timestamp s) s (s\<lparr>prevTime := Some timestamp\<rparr>))) s
      (worldPhase rnd (deltaRatio timestamp s) levelConfig newObstacles s
         (eventPhase rnd timestamp (deltaRatio timestamp s) levelConfig s
            (physicsPhase (deltaRatio timestamp s) s (s\<lparr>prevTime := Some timestamp\<rparr>))))"
  have s': "s' = collectPowerUps timestamp (ballPos s) ?a4"
    using gameLoop_eq[OF assms(1) lc new] assms(2) by simp
  have pu: "powerUps ?a4 = pendingPowerUps rnd (deltaRatio timestamp s) levelConfig s"
    by (simp add: collisionPhase_frame worldPhase_def eventPhase_frame physicsPhase_frame
        pendingPowerUps_def)
  have ob: "obstacles ?a4 = advanceObstacles (deltaRatio timestamp s) s (obstacles s) @ newObstacles"
    by (simp add: collisionPhase_frame worldPhase_def eventPhase_frame physicsPhase_frame)
  have k: "slowPickups rnd timestamp s =
      length (filter (\<lambda>p. pickedUp (ballPos s) p \<and> ptype p = Some Slow)
                (pendingPowerUps rnd (deltaRatio timestamp s) levelConfig s))"
    using assms(1) lc by (simp add: slowPickups_def)
  show ?thesis
    unfolding s' k using collectPowerUps_obstacles[of timestamp "ballPos s" ?a4]
    unfolding pu ob by blast
qed

lemma trackStep_other:
  "trackStep Tap s = Some" "trackStep TierEffect s = Some"
  "trackStep ShieldExpires s = Some" "trackStep (EventsExpire t) s = Some"
  by (intro ext, simp)+

lemma step_obstacles:
  assumes "step st s = Inr s'" and "calm [st] s"
  shows "\<exists>newObstacles. obstacles s' =
           List.map_filter (trackStep st s) (obstacles s) @ newObstacles"
proof (cases st)
  case (Frame rnd timestamp)
  show ?thesis
  proof (cases "gameState s = Playing")
    case False
    with assms(1) Frame have "s' = s" by (simp add: gameLoop_def)
    moreover have "trackStep st s = Some" using False Frame by (intro ext) simp
    ultimately show ?thesis by (simp add: map_filter_Some)
  next
    case True
    from assms(2) Frame have k: "slowPickups rnd timestamp s = 0" by simp
    from assms(1) Frame have "gameLoop rnd timestamp s = Inr s'" by simp
    from gameLoop_obstacles[OF True this] obtain newObstacles
      where "obstacles s' =
                advanceObstacles (deltaRatio timestamp s) s (obstacles s) @ newObstacles"
      unfolding k by auto
    moreover have "trackStep st s =
        (\<lambda>obs. if onScreen (moveObstacle (deltaRatio timestamp s) s obs)
               then Some (moveObstacle (deltaRatio timestamp s) s obs) else None)"
      using True Frame by (intro ext) simp
    then have "List.map_filter (trackStep st s) (obstacles s) =
        advanceObstacles (deltaRatio timestamp s) s (obstacles s)"
      by (simp add: advanceObstacles_def map_filter_if)
    ultimately show ?thesis by simp
  qed
next
  case Tap
  with assms(1) show ?thesis by (auto simp: toggleGravity_def map_filter_Some trackStep_other)
next
  case TierEffect
  with assms(1) show ?thesis by (auto simp: levelAdvance_def Let_def map_filter_Some trackStep_other)
next
  case ShieldExpires
  with assms(1) show ?thesis by (auto simp: shieldTimeoutCallback_def map_filter_Some trackStep_other)
next
  case (EventsExpire t)
  with assms(1) show ?thesis
    by (auto simp: fireEventTimeouts_def fold_eventTimeoutCallback eventTimeoutCallback_def
        map_filter_Some trackStep_other)
qed

lemma run_obstacles:
  assumes "run steps s = Inr s'" and "calm steps s"
  shows "\<exists>newObstacles. obstacles s' =
           List.map_filter (track steps s) (obstacles s) @ newObstacles"
  using assms
proof (induction steps arbitrary: s)
  case Nil
  then show ?case by (simp add: map_filter_Some)
next
  case (Cons st rest)
  from Cons.prems(1) obtain s1 where s1: "step st s = Inr s1" and rest: "run rest s1 = Inr s'"
    by (auto split: sum.splits)
  from Cons.prems(2) s1 have c1: "calm [st] s" and crest: "calm rest s1"
    by (auto split: Step.splits)
  from step_obstacles[OF s1 c1] obtain new1
    where o1: "obstacles s1 = List.map_filter (trackStep st s) (obstacles s) @ new1" by blast
  from Cons.IH[OF rest crest] obtain new2
    where o2: "obstacles s' = List.map_filter (track rest s1) (obstacles s1) @ new2" by blast
  have "(\<lambda>x. case trackStep st s x of None \<Rightarrow> None | Some y \<Rightarrow> track rest s1 y) =
        track (st # rest) s"
    using s1 by (intro ext) (simp split: option.splits)
  then have "List.map_filter (track rest s1) (List.map_filter (trackStep st s) (obstacles s)) =
        List.map_filter (track (st # rest) s) (obstacles s)"
    by (simp add: map_filter_bind)
  then have "obstacles s' = List.map_filter (track (st # rest) s) (obstacles s) @
      (List.map_filter (track rest s1) new1 @ new2)"
    by (simp add: o2 o1 map_filter_append)
  then show ?case by blast
qed

lemma trackStep_speed: "trackStep st s obs = Some obs' \<Longrightarrow> speed obs' = speed obs"
  by (cases st) (auto simp: moveObstacle_speed split: if_splits)

lemma track_speed: "track steps s obs = Some obs' \<Longrightarrow> speed obs' = speed obs"
proof (induction steps arbitrary: s obs)
  case Nil
  then show ?case by simp
next
  case (Cons st rest)
  from Cons.prems obtain obs1 s1
    where a: "trackStep st s obs = Some obs1" and b: "track rest s1 obs1 = Some obs'"
    by (auto split: option.splits sum.splits)
  from Cons.IH[OF b] trackStep_speed[OF a] show ?case by simp
qed

lemma applyPowerUp_slowTimeout:
  "slowTimeout (applyPowerUp now p a) =
     (if ptype p = Some Slow then Some (now + SLOW_MOTION_DURATION) else slowTimeout a)"
  by (simp add: applyPowerUp_def Let_def split: option.splits PowerUpType.splits)

lemma fold_applyPowerUp_slowTimeout:
  "slowTimeout (fold (applyPowerUp now) ps a) =
     (if filter (\<lambda>p. ptype p = Some Slow) ps = [] then slowTimeout a
      else Some (now + SLOW_MOTION_DURATION))"
  by (induction ps arbitrary: a rule: rev_induct) (simp_all add: applyPowerUp_slowTimeout)

lemma collectPowerUps_slowTimeout:
  "slowTimeout (collectPowerUps now ball a) =
     (if filter (\<lambda>p. pickedUp ball p \<and> ptype p = Some Slow) (powerUps a) = [] then slowTimeout a
      else Some (now + SLOW_MOTION_DURATION))"
proof -
  have "(filter (\<lambda>p. ptype p = Some Slow) (filter (pickedUp ball) (rev (powerUps a))) = []) =
        (filter (\<lambda>p. pickedUp ball p \<and> ptype p = Some Slow) (powerUps a) = [])"
    by (auto simp: filter_empty_conv)
  then show ?thesis
    by (simp add: collectPowerUps_def collectLoop_eq fold_applyPowerUp_slowTimeout)
qed

lemma gameLoop_slowTimeout:
  assumes "gameLoop rnd timestamp s = Inr s'"
  shows "slowTimeout s' =
           (if slowPickups rnd timestamp s = 0 then slowTimeout s
            else Some (timestamp + SLOW_MOTION_DURATION))"
proof (cases "gameState s = Playing")
  case False
  with assms show ?thesis by (simp add: gameLoop_def slowPickups_def)
next
  case True
  from assms True obtain levelConfig newObstacles
    where lc: "levelAt (currentLevelIndex s) = Some levelConfig"
      and new: "spawnObstacles rnd (deltaRatio timestamp s) levelConfig s = Inr newObstacles"
    by (auto simp: gameLoop_def Let_def split: option.splits sum.splits)
  let ?a4 = "collisionPhase
      (ballPos (physicsPhase (deltaRatio timestamp s) s (s\<lparr>prevTime := Some timestamp\<rparr>))) s
      (worldPhase rnd (deltaRatio timestamp s) levelConfig newObstacles s
         (eventPhase rnd timestamp (deltaRatio timestamp s) levelConfig s
            (physicsPhase (deltaRatio timestamp s) s (s\<lparr>prevTime := Some timestamp\<rparr>))))"
  have s': "s' = collectPowerUps timestamp (ballPos s) ?a4"
    using gameLoop_eq[OF True lc new] assms by simp
  have pu: "powerUps ?a4 = pendingPowerUps rnd (deltaRatio timestamp s) levelConfig s"
    by (simp add: collisionPhase_frame worldPhase_def eventPhase_frame physicsPhase_frame
        pendingPowerUps_def)
  have st: "slowTimeout ?a4 = slowTimeout s"
    by (simp add: collisionPhase_def worldPhase_def eventPhase_def triggerRandomEvent_def
        physicsPhase_def Let_def)
  show ?thesis
    unfolding s' collectPowerUps_slowTimeout pu st
    using True lc by (simp add: slowPickups_def)
qed

lemma step_slowTimeout:
  assumes "step st s = Inr s'" and "calm [st] s"
  shows "slowTimeout s' = slowTimeout s"
proof (cases st)
  case (Frame rnd timestamp)
  with assms gameLoop_slowTimeout[of rnd timestamp s s'] show ?thesis by simp
next
  case Tap
  with assms(1) show ?thesis by (auto simp: toggleGravity_def)
next
  case TierEffect
  with assms(1) show ?thesis by (auto simp: levelAdvance_def Let_def)
next
  case ShieldExpires
  with assms(1) show ?thesis by (auto simp: shieldTimeoutCallback_def)
next
  case (EventsExpire t)
  with assms(1) show ?thesis
    by (auto simp: fireEventTimeouts_def fold_eventTimeoutCallback eventTimeoutCallback_def)
qed

lemma run_slowTimeout:
  assumes "run steps s = Inr s'" and "calm steps s"
  shows "slowTimeout s' = slowTimeout s"
  using assms
proof (induction steps arbitrary: s)
  case Nil
  then show ?case by simp
next
  case (Cons st rest)
  from Cons.prems(1) obtain s1 where s1: "step st s = Inr s1" and rest: "run rest s1 = Inr s'"
    by (auto split: sum.splits)
  from Cons.prems(2) s1 have c1: "calm [st] s" and crest: "calm rest s1"
    by (auto split: Step.splits)
  from Cons.IH[OF rest crest] step_slowTimeout[OF s1 c1] show ?case by simp
qed

lemma slowGame_tick: "gameLoop quietRnd 1016.66 slowGame = Inr slowGame1"
  by (simp add: slowGame_def slowGame1_def slowObstacle_def examples tick_defs)

lemma pulse_small: "(3::real) < 40 * pi"
  using pi_ge_two by simp

lemma slowGame1_run: "run [Frame quietRnd 1033.32, Tap] slowGame1 = Inr slowGame2"
  using pulse_small
  by (simp add: slowGame_def slowGame1_def slowGame2_def toggleGravity_def examples tick_defs)

lemma gameLoop_pendingObstacles:
  assumes "gameState s = Playing" and "levelAt (currentLevelIndex s) = Some levelConfig"
    and "gameLoop rnd timestamp s = Inr s'"
  shows "\<exists>before. pendingObstacles rnd (deltaRatio timestamp s) levelConfig s = Inr before \<and>
           obstacles s' = map (slowObstacle ^^ slowPickups rnd timestamp s) before"
proof -
  from assms obtain newObstacles
    where new: "spawnObstacles rnd (deltaRatio timestamp s) levelConfig s = Inr newObstacles"
    by (auto simp: gameLoop_def Let_def split: sum.splits)
  let ?a4 = "collisionPhase
      (ballPos (physicsPhase (deltaRatio timestamp s) s (s\<lparr>prevTime := Some timestamp\<rparr>))) s
      (worldPhase rnd (deltaRatio timestamp s) levelConfig newObstacles s
         (eventPhase rnd timestamp (deltaRatio timestamp s) levelConfig s
            (physicsPhase (deltaRatio timestamp s) s (s\<lparr>prevTime := Some timestamp\<rparr>))))"
  have s': "s' = collectPowerUps timestamp (ballPos s) ?a4"
    using gameLoop_eq[OF assms(1,2) new] assms(3) by simp
  have pu: "powerUps ?a4 = pendingPowerUps rnd (deltaRatio timestamp s) levelConfig s"
    by (simp add: collisionPhase_frame worldPhase_def eventPhase_frame physicsPhase_frame
        pendingPowerUps_def)
  have ob: "obstacles ?a4 = advanceObstacles (deltaRatio timestamp s) s (obstacles s) @ newObstacles"
    by (simp add: collisionPhase_frame worldPhase_def eventPhase_frame physicsPhase_frame)
  have k: "slowPickups rnd timestamp s =
      length (filter (\<lambda>p. pickedUp (ballPos s) p \<and> ptype p = Some Slow)
                (pendingPowerUps rnd (deltaRatio timestamp s) levelConfig s))"
    using assms(1,2) by (simp add: slowPickups_def)
  have pend: "pendingObstacles rnd (deltaRatio timestamp s) levelConfig s =
      Inr (advanceObstacles (deltaRatio timestamp s) s (obstacles s) @ newObstacles)"
    by (simp add: pendingObstacles_def new)
  show ?thesis
    unfolding s' k pend using collectPowerUps_obstacles[of timestamp "ballPos s" ?a4]
    unfolding pu ob by simp
qed

lemma survivor_speeds:
  assumes "\<And>x y. f x = Some y \<Longrightarrow> speed y = speed x"
  shows "map speed (List.map_filter f xs) = map speed (filter (\<lambda>x. f x \<noteq> None) xs)"
  using assms by (induction xs) (auto simp: List.map_filter_simps split: option.splits)

lemma slowGame_pending:
  "pendingObstacles quietRnd (deltaRatio 1016.66 slowGame) (LEVELS ! 0) slowGame = Inr [movedFar]"
  by (simp add: pendingObstacles_def movedFar_def slowGame_def examples tick_defs)

section \<open>Properties of the simulation core\<close>

text \<open>
  C1. While the ball is shielded, a tick never ends the run: the collision test finds
  nothing, whatever overlaps the ball, and the run state stays \<open>Playing\<close>. No obstacle is
  removed because of an overlap: every obstacle that is still on the screen after its
  move (the only pruning a tick does) is in the list after the tick, moved, and slowed
  \<open>k\<close> times if \<open>k\<close> slow power-ups were picked up in the same tick.
\<close>

theorem shield_ignores_collision:
  assumes "gameState s = Playing" and "invulnerable s"
    and "currentLevelIndex s < length LEVELS"
    and "0 \<le> patternPick rnd" and "patternPick rnd < 1"
  shows "\<exists>s'. gameLoop rnd timestamp s = Inr s' \<and> gameState s' = Playing \<and>
           \<not> checkObstacleCollisions (invulnerable s) (ballPos s') (obstacles s) \<and>
           (\<forall>obs \<in> set (obstacles s).
              onScreen (moveObstacle (deltaRatio timestamp s) s obs) \<longrightarrow>
              (\<exists>k. (slowObstacle ^^ k) (moveObstacle (deltaRatio timestamp s) s obs)
                     \<in> set (obstacles s')))"
proof -
  from assms(3) obtain levelConfig where "levelAt (currentLevelIndex s) = Some levelConfig"
    by (simp add: levelAt_def)
  from gameLoop_tick[OF assms(1) this assms(4,5), of timestamp] obtain s' newObstacles k
    where loop: "gameLoop rnd timestamp s = Inr s'"
      and obs: "obstacles s' = map (slowObstacle ^^ k)
          (advanceObstacles (deltaRatio timestamp s) s (obstacles s) @ newObstacles)"
      and gs: "gameState s' =
          (if checkObstacleCollisions (invulnerable s) (ballPos s') (obstacles s)
           then GameOver else Playing)"
    by blast
  have no: "\<not> checkObstacleCollisions (invulnerable s) (ballPos s') (obstacles s)"
    using assms(2) shield_no_collision by simp
  have kept: "(slowObstacle ^^ k) (moveObstacle (deltaRatio timestamp s) s obs) \<in> set (obstacles s')"
    if "obs \<in> set (obstacles s)" and "onScreen (moveObstacle (deltaRatio timestamp s) s obs)"
    for obs
    using that by (simp add: obs advanceObstacles_def image_Un image_iff) blast
  from loop gs no kept show ?thesis by auto
qed

theorem shield_ignores_collision_witness:
  "(\<exists>s'. gameLoop quietRnd 1016.66 shieldedGame = Inr s' \<and> gameState s' = Playing \<and>
      overlaps (ballPos s') blocker \<and>
      (\<exists>k. (slowObstacle ^^ k) (moveObstacle 1 shieldedGame blocker) \<in> set (obstacles s')))"
proof -
  have "gameState shieldedGame = Playing" and "invulnerable shieldedGame"
    and "currentLevelIndex shieldedGame < length LEVELS"
    and "0 \<le> patternPick quietRnd" and "patternPick quietRnd < 1"
    by (simp_all add: examples LEVELS_def)
  from shield_ignores_collision[OF this, of "1016.66"] obtain s'
    where loop: "gameLoop quietRnd 1016.66 shieldedGame = Inr s'" "gameState s' = Playing"
      and kept: "\<forall>obs \<in> set (obstacles shieldedGame).
              onScreen (moveObstacle (deltaRatio 1016.66 shieldedGame) shieldedGame obs) \<longrightarrow>
              (\<exists>k. (slowObstacle ^^ k) (moveObstacle (deltaRatio 1016.66 shieldedGame) shieldedGame obs)
                     \<in> set (obstacles s'))"
    by blast
  have dt: "deltaRatio 1016.66 shieldedGame = 1"
    by (simp add: examples deltaRatio_def)
  have "blocker \<in> set (obstacles shieldedGame)"
    and "onScreen (moveObstacle 1 shieldedGame blocker)"
    by (simp_all add: examples onScreen_def moveObstacle_def Let_def)
  with kept dt have "\<exists>k. (slowObstacle ^^ k) (moveObstacle 1 shieldedGame blocker) \<in> set (obstacles s')"
    by auto
  moreover have "ballPos s' = \<lparr>posX = 100, posY = 300.4\<rparr>"
    using gameLoop_physics[OF _ loop(1)]
    by (simp add: examples physicsPhase_def hitsTop_def hitsBottom_def tentativePosY_def
        tentativeVelY_def deltaRatio_def constants Let_def)
  then have "overlaps (ballPos s') blocker"
    by (simp add: overlaps_def blocker_def Let_def BALL_RADIUS_def)
  ultimately show ?thesis using loop by blast
qed

text \<open>
  C2. With a speed multiplier that is not negative (the slider gives 0.8 to 1.5), the
  vertical velocity after the integration of a tick, bounce included, is at most
  \<open>MAX_VELOCITY * speedMultiplier\<close> in magnitude, whatever it was before; the bound is
  kept by a call that does not tick; the normalised time step lies in [0.1, 2]; and a
  run starts with velocity zero, for which the bound holds.
\<close>

theorem velocity_bounded:
  assumes "0 \<le> speedMultiplier s" and "currentLevelIndex s < length LEVELS"
    and "0 \<le> patternPick rnd" and "patternPick rnd < 1"
  shows "(\<exists>s'. gameLoop rnd timestamp s = Inr s' \<and> speedMultiplier s' = speedMultiplier s \<and>
            (gameState s = Playing \<longrightarrow>
               \<bar>velY (ballVel s')\<bar> \<le> MAX_VELOCITY * speedMultiplier s) \<and>
            (\<bar>velY (ballVel s)\<bar> \<le> MAX_VELOCITY * speedMultiplier s \<longrightarrow>
               \<bar>velY (ballVel s')\<bar> \<le> MAX_VELOCITY * speedMultiplier s)) \<and>
         0.1 \<le> deltaRatio timestamp s \<and> deltaRatio timestamp s \<le> 2 \<and>
         (\<exists>s0. startGame now rnd s = Inr s0 \<and> speedMultiplier s0 = speedMultiplier s \<and>
            velY (ballVel s0) = 0 \<and> \<bar>velY (ballVel s0)\<bar> \<le> MAX_VELOCITY * speedMultiplier s)"
proof -
  from gameLoop_returns[OF assms(2-4)] obtain s' where s': "gameLoop rnd timestamp s = Inr s'"
    by blast
  have same: "speedMultiplier s' = speedMultiplier s"
    using gameLoop_speedMultiplier[OF s'] by simp
  have playing: "\<bar>velY (ballVel s')\<bar> \<le> MAX_VELOCITY * speedMultiplier s"
    if "gameState s = Playing"
  proof -
    from gameLoop_physics[OF that s']
      physicsPhase_vel_bound[OF assms(1), of "deltaRatio timestamp s" s]
    show ?thesis by simp
  qed
  have idle: "s' = s" if "gameState s \<noteq> Playing"
    using that s' by (simp add: gameLoop_def)
  have tick: "\<bar>velY (ballVel s)\<bar> \<le> MAX_VELOCITY * speedMultiplier s \<longrightarrow>
              \<bar>velY (ballVel s')\<bar> \<le> MAX_VELOCITY * speedMultiplier s"
    using playing idle by blast
  from assms(2) obtain levelConfig where "levelAt (currentLevelIndex s) = Some levelConfig"
    by (simp add: levelAt_def)
  then have start: "\<exists>s0. startGame now rnd s = Inr s0 \<and> speedMultiplier s0 = speedMultiplier s \<and>
            velY (ballVel s0) = 0 \<and> \<bar>velY (ballVel s0)\<bar> \<le> MAX_VELOCITY * speedMultiplier s"
    using assms(1) by (simp add: startGame_def MAX_VELOCITY_def)
  from s' same playing tick start deltaRatio_range[of timestamp s] show ?thesis by blast
qed

theorem velocity_bounded_witness:
  "(\<exists>s'. gameLoop quietRnd 1016.66 topGame = Inr s' \<and> speedMultiplier s' = 1 \<and>
          \<bar>velY (ballVel s')\<bar> \<le> 8) \<and>
   (\<exists>s0. startGame 1000 quietRnd topGame = Inr s0 \<and> speedMultiplier s0 = 1 \<and>
          velY (ballVel s0) = 0)"
proof -
  have "0 \<le> speedMultiplier topGame" and "currentLevelIndex topGame < length LEVELS"
    and "0 \<le> patternPick quietRnd" and "patternPick quietRnd < 1"
    by (simp_all add: topGame_def playingGame_def initialGame_def quietRnd_def LEVELS_def)
  from velocity_bounded[OF this, of "1016.66" 1000] show ?thesis
    by (auto simp: topGame_def playingGame_def initialGame_def MAX_VELOCITY_def)
qed




text \<open>
  C4. A tick makes at most one boundary bounce. The top test comes first and the bottom
  test is its \<open>else\<close> branch; the two conditions exclude each other. A bounce puts the
  ball on the boundary, reflects the velocity with the damping factor 0.7 (which is
  below 1) and negates the gravity direction once; a tick without a bounce leaves the
  gravity direction as it was.
\<close>

theorem bounce_once_per_tick:
  assumes "gameState s = Playing" and "currentLevelIndex s < length LEVELS"
    and "0 \<le> patternPick rnd" and "patternPick rnd < 1"
  shows "\<exists>s'. gameLoop rnd timestamp s = Inr s' \<and>
         (hitsTop (deltaRatio timestamp s) s \<longrightarrow>
            posY (ballPos s') = BALL_RADIUS \<and>
            velY (ballVel s') = - tentativeVelY (deltaRatio timestamp s) s * BOUNCE_DAMPING \<and>
            gravityDir s' = - gravityDir s) \<and>
         (\<not> hitsTop (deltaRatio timestamp s) s \<and> hitsBottom (deltaRatio timestamp s) s \<longrightarrow>
            posY (ballPos s') = CANVAS_HEIGHT - BALL_RADIUS \<and>
            velY (ballVel s') = - tentativeVelY (deltaRatio timestamp s) s * BOUNCE_DAMPING \<and>
            gravityDir s' = - gravityDir s) \<and>
         (\<not> hitsTop (deltaRatio timestamp s) s \<and> \<not> hitsBottom (deltaRatio timestamp s) s \<longrightarrow>
            posY (ballPos s') = tentativePosY (deltaRatio timestamp s) s \<and>
            velY (ballVel s') = tentativeVelY (deltaRatio timestamp s) s \<and>
            gravityDir s' = gravityDir s) \<and>
         \<not> (hitsTop (deltaRatio timestamp s) s \<and> hitsBottom (deltaRatio timestamp s) s) \<and>
         0 < BOUNCE_DAMPING \<and> BOUNCE_DAMPING < 1"
proof -
  from gameLoop_returns[OF assms(2-4)] obtain s' where s': "gameLoop rnd timestamp s = Inr s'"
    by blast
  from gameLoop_physics[OF assms(1) s'] not_both_boundaries[of "deltaRatio timestamp s" s]
  show ?thesis
    by (simp add: s' physicsPhase_def Let_def BOUNCE_DAMPING_def)
qed

theorem bounce_once_per_tick_witness:
  "(\<exists>s'. gameLoop quietRnd 1016.66 topGame = Inr s' \<and>
         posY (ballPos s') = 12 \<and> velY (ballVel s') = 3.78 \<and> gravityDir s' = 1) \<and>
   (\<exists>s'. gameLoop quietRnd 1016.66 bottomGame = Inr s' \<and>
         posY (ballPos s') = 588 \<and> velY (ballVel s') = - 3.78 \<and> gravityDir s' = - 1) \<and>
   (\<exists>s'. gameLoop quietRnd 1016.66 playingGame = Inr s' \<and>
         posY (ballPos s') = 300.4 \<and> velY (ballVel s') = 0.4 \<and> gravityDir s' = 1)"
  using bounce_once_per_tick[of topGame quietRnd "1016.66"]
    bounce_once_per_tick[of bottomGame quietRnd "1016.66"]
    bounce_once_per_tick[of playingGame quietRnd "1016.66"]
  by (simp add: topGame_def bottomGame_def playingGame_def initialGame_def quietRnd_def
      LEVELS_def deltaRatio_def hitsTop_def hitsBottom_def tentativePosY_def
      tentativeVelY_def constants Let_def)

text \<open>
  C5. The tier effect never lowers the tier index. It advances the index by one, and
  emits the tier-advance signal once, exactly when a next tier exists and the score has
  reached its threshold; otherwise it changes nothing. Over a run (any sequence of
  scores, so also a non-decreasing one, the effect being repeated after each change until
  it settles) the index never goes down, the signals emitted are one per tier gained, the
  index is up to date with the last score, and a second evaluation at the same score
  changes nothing.
\<close>

theorem tier_never_regresses:
  "currentLevelIndex s \<le> currentLevelIndex (levelAdvance s) \<and>
   (currentLevelIndex s + 1 < length LEVELS \<and>
      thresholdScore (LEVELS ! (currentLevelIndex s + 1)) \<le> score s \<longrightarrow>
      currentLevelIndex (levelAdvance s) = currentLevelIndex s + 1 \<and>
      effects (levelAdvance s) = effects s @ [tierAdvanceSignal]) \<and>
   (\<not> (currentLevelIndex s + 1 < length LEVELS \<and>
      thresholdScore (LEVELS ! (currentLevelIndex s + 1)) \<le> score s) \<longrightarrow>
      levelAdvance s = s) \<and>
   currentLevelIndex (levelRun scores s) \<le> currentLevelIndex (levelRun (scores @ later) s) \<and>
   effects (levelRun scores s) =
     effects s @ replicate (currentLevelIndex (levelRun scores s) - currentLevelIndex s)
                   tierAdvanceSignal \<and>
   (scores \<noteq> [] \<and> currentLevelIndex (levelRun scores s) + 1 < length LEVELS \<longrightarrow>
      last scores < thresholdScore (LEVELS ! (currentLevelIndex (levelRun scores s) + 1))) \<and>
   levelRun (scores @ [newScore, newScore]) s = levelRun (scores @ [newScore]) s"
proof -
  have 1: "currentLevelIndex s \<le> currentLevelIndex (levelAdvance s)"
    by (simp add: levelAdvance_def Let_def)
  have 4: "currentLevelIndex (levelRun scores s) \<le> currentLevelIndex (levelRun (scores @ later) s)"
    using levelRun_props[of "levelRun scores s" later] by (simp add: levelRun_append)
  have 6: "last scores < thresholdScore (LEVELS ! (currentLevelIndex (levelRun scores s) + 1))"
    if "scores \<noteq> []" and "currentLevelIndex (levelRun scores s) + 1 < length LEVELS"
  proof (rule ccontr)
    assume "\<not> last scores < thresholdScore (LEVELS ! (currentLevelIndex (levelRun scores s) + 1))"
    with that levelRun_settled[OF that(1), of s] levelAdvance_cases[of "levelRun scores s"]
    have "levelRun scores s = (levelRun scores s)\<lparr>currentLevelIndex := currentLevelIndex (levelRun scores s) + 1,
                          effects := effects (levelRun scores s) @ [tierAdvanceSignal]\<rparr>"
      by simp
    then have "currentLevelIndex (levelRun scores s) = currentLevelIndex (levelRun scores s) + 1"
      by (metis Game.select_convs(4) Game.surjective Game.update_convs(4) Game.update_convs(21))
    then show False by simp
  qed
  from 1 4 6 levelAdvance_cases[of s] levelRun_props[of s scores]
    levelRun_same_score[of scores newScore s]
  show ?thesis by simp
qed

theorem tier_never_regresses_witness:
  "levelAdvance (playingGame\<lparr>score := 499\<rparr>) = playingGame\<lparr>score := 499\<rparr> \<and>
   currentLevelIndex (levelAdvance (playingGame\<lparr>score := 500\<rparr>)) = 1 \<and>
   effects (levelAdvance (playingGame\<lparr>score := 500\<rparr>)) = [tierAdvanceSignal] \<and>
   currentLevelIndex (levelRun [499, 500, 500, 501] playingGame) = 1 \<and>
   effects (levelRun [499, 500, 500, 501] playingGame) = [tierAdvanceSignal]"
proof -
  have idx: "currentLevelIndex (levelRun [499, 500, 500, 501] playingGame) = 1"
    by (simp add: levelSettle.simps levelAdvance_def LEVELS_def examples Let_def)
  from tier_never_regresses[of "playingGame\<lparr>score := 499\<rparr>" "[]" "[]" 0]
  have a: "levelAdvance (playingGame\<lparr>score := 499\<rparr>) = playingGame\<lparr>score := 499\<rparr>"
    by (simp add: LEVELS_def examples)
  from tier_never_regresses[of "playingGame\<lparr>score := 500\<rparr>" "[]" "[]" 0]
  have b: "currentLevelIndex (levelAdvance (playingGame\<lparr>score := 500\<rparr>)) = 1"
    "effects (levelAdvance (playingGame\<lparr>score := 500\<rparr>)) = [tierAdvanceSignal]"
    by (simp_all add: LEVELS_def examples)
  from tier_never_regresses[of playingGame "[499, 500, 500, 501]" "[]" 0] idx
  have c: "effects (levelRun [499, 500, 500, 501] playingGame) = [tierAdvanceSignal]"
    by (simp add: examples)
  from a b c idx show ?thesis by simp
qed

text \<open>
  C6. Take a running tick that picks up exactly one slow power-up, and let \<open>before\<close> be the
  obstacles alive just before the pickup (\<open>pendingObstacles\<close>: those of the state before the
  tick, moved and pruned, and those spawned in the tick). After the tick the obstacles
  are exactly \<open>before\<close> with every speed multiplied by 0.6, and a timer of
  \<open>SLOW_MOTION_DURATION\<close> is started. If no other slow power-up is picked up in the steps
  that follow (frames, taps, tier effects, other timers), the timer is still the same
  when it expires; its callback divides the speed of every live obstacle by 0.6; the
  list then consists of the obstacles of \<open>before\<close> that have not been pruned, in their
  order, followed by the obstacles spawned since; and the speeds of the former are the
  speeds they had in \<open>before\<close>. Speeds are real numbers here, so the equality is exact.
\<close>

theorem slow_round_trip:
  assumes "gameState s = Playing"
    and "levelAt (currentLevelIndex s) = Some levelConfig"
    and "gameLoop rnd timestamp s = Inr s1"
    and "slowPickups rnd timestamp s = 1"
    and "run steps s1 = Inr s2"
    and "calm steps s1"
  shows "\<exists>before later.
     pendingObstacles rnd (deltaRatio timestamp s) levelConfig s = Inr before \<and>
     obstacles s1 = map slowObstacle before \<and>
     map speed (obstacles s1) = map (\<lambda>obs. speed obs * 0.6) before \<and>
     slowTimeout s1 = Some (timestamp + SLOW_MOTION_DURATION) \<and>
     slowTimeout s2 = Some (timestamp + SLOW_MOTION_DURATION) \<and>
     obstacles s2 = List.map_filter (track steps s1) (obstacles s1) @ later \<and>
     obstacles (slowTimeoutCallback s2) = map restoreObstacle (obstacles s2) \<and>
     map speed (obstacles (slowTimeoutCallback s2)) =
       map (\<lambda>obs. speed obs / 0.6) (obstacles s2) \<and>
     obstacles (slowTimeoutCallback s2) =
       List.map_filter
         (\<lambda>obs. map_option restoreObstacle (track steps s1 (slowObstacle obs))) before @
       map restoreObstacle later \<and>
     map speed
       (List.map_filter
          (\<lambda>obs. map_option restoreObstacle (track steps s1 (slowObstacle obs))) before) =
       map speed (filter (\<lambda>obs. track steps s1 (slowObstacle obs) \<noteq> None) before)"
proof -
  from gameLoop_pendingObstacles[OF assms(1-3)] obtain before
    where pend: "pendingObstacles rnd (deltaRatio timestamp s) levelConfig s = Inr before"
      and o1: "obstacles s1 = map slowObstacle before"
    unfolding assms(4) by auto
  have sp1: "map speed (obstacles s1) = map (\<lambda>obs. speed obs * 0.6) before"
    by (simp add: o1 slowObstacle_def comp_def)
  have t1: "slowTimeout s1 = Some (timestamp + SLOW_MOTION_DURATION)"
    using gameLoop_slowTimeout[OF assms(3)] assms(4) by simp
  have t2: "slowTimeout s2 = Some (timestamp + SLOW_MOTION_DURATION)"
    using run_slowTimeout[OF assms(5,6)] t1 by simp
  from run_obstacles[OF assms(5,6)] obtain later
    where o2: "obstacles s2 = List.map_filter (track steps s1) (obstacles s1) @ later" by blast
  have cb: "obstacles (slowTimeoutCallback s2) = map restoreObstacle (obstacles s2)"
    by (simp add: slowTimeoutCallback_def)
  have sp2: "map speed (obstacles (slowTimeoutCallback s2)) =
       map (\<lambda>obs. speed obs / 0.6) (obstacles s2)"
    by (simp add: cb restoreObstacle_def comp_def)
  have mf: "map restoreObstacle (List.map_filter f xs) =
            List.map_filter (\<lambda>x. map_option restoreObstacle (f x)) xs" for f xs
    by (induction xs) (auto simp: List.map_filter_simps split: option.splits)
  have mm: "List.map_filter f (map g xs) = List.map_filter (\<lambda>x. f (g x)) xs" for f g xs
    by (induction xs) (auto simp: List.map_filter_simps split: option.splits)
  have restored: "obstacles (slowTimeoutCallback s2) =
       List.map_filter
         (\<lambda>obs. map_option restoreObstacle (track steps s1 (slowObstacle obs))) before @
       map restoreObstacle later"
    by (simp add: slowTimeoutCallback_def o2 o1 mf mm)
  have roundtrip: "speed obs' = speed obs"
    if "map_option restoreObstacle (track steps s1 (slowObstacle obs)) = Some obs'" for obs obs'
  proof -
    from that obtain mid where mid: "track steps s1 (slowObstacle obs) = Some mid"
      and obs': "obs' = restoreObstacle mid" by auto
    from track_speed[OF mid] show ?thesis
      by (simp add: obs' restoreObstacle_def slowObstacle_def)
  qed
  have speeds: "map speed
       (List.map_filter
          (\<lambda>obs. map_option restoreObstacle (track steps s1 (slowObstacle obs))) before) =
       map speed (filter (\<lambda>obs. track steps s1 (slowObstacle obs) \<noteq> None) before)"
    using survivor_speeds[of "\<lambda>obs. map_option restoreObstacle (track steps s1 (slowObstacle obs))"
        before, OF roundtrip]
    by simp
  from pend o1 sp1 t1 t2 o2 cb sp2 restored speeds show ?thesis by blast
qed

theorem slow_round_trip_witness:
  "gameLoop quietRnd 1016.66 slowGame = Inr slowGame1 \<and>
   run [Frame quietRnd 1033.32, Tap] slowGame1 = Inr slowGame2 \<and>
   pendingObstacles quietRnd (deltaRatio 1016.66 slowGame) (LEVELS ! 0) slowGame = Inr [movedFar] \<and>
   speed movedFar = 3 \<and>
   obstacles slowGame1 = [slowObstacle movedFar] \<and>
   map speed (obstacles slowGame1) = [1.8] \<and>
   map speed (obstacles (slowTimeoutCallback slowGame2)) = [3] \<and>
   slowTimeout slowGame2 = Some (1016.66 + SLOW_MOTION_DURATION)"
proof -
  have playing: "gameState slowGame = Playing"
    by (simp add: slowGame_def examples)
  have tier: "levelAt (currentLevelIndex slowGame) = Some (LEVELS ! 0)"
    by (simp add: slowGame_def examples levelAt_def LEVELS_def)
  have one: "slowPickups quietRnd 1016.66 slowGame = 1"
    by (simp add: slowPickups_def pendingPowerUps_def pickedUp_def slowGame_def examples tick_defs)
  have "slowPickups quietRnd 1033.32 slowGame1 = 0"
    using pulse_small
    by (simp add: slowPickups_def pendingPowerUps_def pickedUp_def slowGame_def slowGame1_def
        examples advancePowerUps_def spawnPowerUps_def levelAt_def LEVELS_def deltaRatio_def)
  then have quiet: "calm [Frame quietRnd 1033.32, Tap] slowGame1"
    by (simp split: sum.splits)
  from slow_round_trip[OF playing tier slowGame_tick one slowGame1_run quiet] obtain before
    where "pendingObstacles quietRnd (deltaRatio 1016.66 slowGame) (LEVELS ! 0) slowGame = Inr before"
      and o1: "obstacles slowGame1 = map slowObstacle before"
      and sp1: "map speed (obstacles slowGame1) = map (\<lambda>obs. speed obs * 0.6) before"
      and t2: "slowTimeout slowGame2 = Some (1016.66 + SLOW_MOTION_DURATION)"
    by blast
  then have before: "before = [movedFar]" using slowGame_pending by simp
  have "map speed (obstacles (slowTimeoutCallback slowGame2)) = [3]"
    by (simp add: slowGame2_def slowTimeoutCallback_def restoreObstacle_def)
  with o1 sp1 t2 slowGame_tick slowGame1_run slowGame_pending show ?thesis
    unfolding before by (simp add: movedFar_def)
qed

text \<open>
  C7 (as amended). A running tick appends obstacles only if the draw is below
  \<open>(obstacleBaseChance * spawnMultiplier + score * 0.00001) * dt\<close> and the number of live
  obstacles before the tick is below the \<open>obstacleMax\<close> of the tier; it then appends a
  pattern of three when a second draw is below 0.25, and one obstacle otherwise. The
  score enters the chance as an added term, not as a factor.
\<close>

theorem spawn_gating:
  assumes "gameState s = Playing" and "levelAt (currentLevelIndex s) = Some levelConfig"
    and "0 \<le> patternPick rnd" and "patternPick rnd < 1"
  shows "\<exists>s'. gameLoop rnd timestamp s = Inr s' \<and>
     length (obstacles s') =
       length (advanceObstacles (deltaRatio timestamp s) s (obstacles s)) +
       (if spawnRoll rnd <
             (obstacleBaseChance levelConfig * spawnMultiplier s +
              real_of_int (score s) * 0.00001) * deltaRatio timestamp s \<and>
           length (obstacles s) < obstacleMax levelConfig
        then (if patternRoll rnd < 0.25 then 3 else 1) else 0)"
  using gameLoop_tick[OF assms, of timestamp]
  by (auto simp: spawnFires_def dynamicObstacleChance_def)

theorem spawn_gating_witness:
  "(\<exists>s'. gameLoop patternRnd 1016.66 crowdedGame = Inr s' \<and> length (obstacles s') = 6) \<and>
   (\<exists>s'. gameLoop (patternRnd\<lparr>patternRoll := 0.25\<rparr>) 1016.66 crowdedGame = Inr s' \<and>
         length (obstacles s') = 4) \<and>
   (\<exists>s'. gameLoop quietRnd 1016.66 crowdedGame = Inr s' \<and> length (obstacles s') = 3) \<and>
   (\<exists>s'. gameLoop patternRnd 1016.66 (crowdedGame\<lparr>obstacles := farObstacle # obstacles crowdedGame\<rparr>)
           = Inr s' \<and> length (obstacles s') = 4)"
proof -
  have 1: "\<exists>s'. gameLoop patternRnd 1016.66 crowdedGame = Inr s' \<and> length (obstacles s') = 6"
    using spawn_gating[of crowdedGame "LEVELS ! 0" patternRnd "1016.66"]
    by (auto simp: examples levelAt_def LEVELS_def deltaRatio_def advanceObstacles_def
        onScreen_def moveObstacle_def Let_def)
  have 2: "\<exists>s'. gameLoop (patternRnd\<lparr>patternRoll := 0.25\<rparr>) 1016.66 crowdedGame = Inr s' \<and>
         length (obstacles s') = 4"
    using spawn_gating[of crowdedGame "LEVELS ! 0" "patternRnd\<lparr>patternRoll := 0.25\<rparr>" "1016.66"]
    by (auto simp: examples levelAt_def LEVELS_def deltaRatio_def advanceObstacles_def
        onScreen_def moveObstacle_def Let_def)
  have 3: "\<exists>s'. gameLoop quietRnd 1016.66 crowdedGame = Inr s' \<and> length (obstacles s') = 3"
    using spawn_gating[of crowdedGame "LEVELS ! 0" quietRnd "1016.66"]
    by (auto simp: examples levelAt_def LEVELS_def deltaRatio_def advanceObstacles_def
        onScreen_def moveObstacle_def Let_def)
  have 4: "\<exists>s'. gameLoop patternRnd 1016.66 (crowdedGame\<lparr>obstacles := farObstacle # obstacles crowdedGame\<rparr>)
           = Inr s' \<and> length (obstacles s') = 4"
    using spawn_gating[of "crowdedGame\<lparr>obstacles := farObstacle # obstacles crowdedGame\<rparr>"
        "LEVELS ! 0" patternRnd "1016.66"]
    by (auto simp: examples levelAt_def LEVELS_def deltaRatio_def advanceObstacles_def
        onScreen_def moveObstacle_def Let_def)
  from 1 2 3 4 show ?thesis by blast
qed

text \<open>
  C7 as stated fails: the chance is not the product of the tier's base chance, the spawn
  multiplier, a factor that depends on the score, and \<open>dt\<close>. At score 1000 in the second
  tier such a factor would have to be 5/3 for the multiplier 1 and 13/9 for 1.5.
\<close>

theorem spawn_chance_product_counterexample:
  "\<not> (\<exists>scoreFactor :: int \<Rightarrow> real. \<forall>s dt.
        dynamicObstacleChance (LEVELS ! 1) s * dt =
        obstacleBaseChance (LEVELS ! 1) * spawnMultiplier s * scoreFactor (score s) * dt)"
proof
  assume "\<exists>scoreFactor :: int \<Rightarrow> real. \<forall>s dt.
        dynamicObstacleChance (LEVELS ! 1) s * dt =
        obstacleBaseChance (LEVELS ! 1) * spawnMultiplier s * scoreFactor (score s) * dt"
  then obtain scoreFactor :: "int \<Rightarrow> real" where f: "\<And>s dt.
        dynamicObstacleChance (LEVELS ! 1) s * dt =
        obstacleBaseChance (LEVELS ! 1) * spawnMultiplier s * scoreFactor (score s) * dt"
    by blast
  from f[of "playingGame\<lparr>score := 1000, currentLevelIndex := 1, spawnMultiplier := 1\<rparr>" 1]
  have "scoreFactor 1000 = 5 / 3"
    by (simp add: dynamicObstacleChance_def LEVELS_def examples)
  moreover
  from f[of "playingGame\<lparr>score := 1000, currentLevelIndex := 1, spawnMultiplier := 1.5\<rparr>" 1]
  have "scoreFactor 1000 = 13 / 9"
    by (simp add: dynamicObstacleChance_def LEVELS_def examples)
  ultimately show False by simp
qed

text \<open>
  C8. The state holds one event slot, so at most one event is active. \<open>triggerRandomEvent\<close>
  does nothing while an event is active; from the inactive state it activates the event
  chosen and starts a timer due 4000 ms later, whatever the kind. A tick triggers only
  when no event is active and the draw is below the tier's probability times \<open>dt\<close>;
  otherwise it leaves the event and its timers as they are. The callback of the timer
  makes the slot inactive whatever it held, and so does firing the timers that are due.
\<close>

theorem single_active_event:
  "(isEventActive s \<longrightarrow> triggerRandomEvent now rnd s a = a) \<and>
   (\<not> isEventActive s \<longrightarrow>
      isEventActive (triggerRandomEvent now rnd s a) \<and>
      activeEventType (triggerRandomEvent now rnd s a) =
        pickAt [Storm, Fog, InvertShock] (eventPick rnd) \<and>
      eventTimeouts (triggerRandomEvent now rnd s a) = eventTimeouts a @ [now + 4000]) \<and>
   (gameState s = Playing \<and> levelAt (currentLevelIndex s) = Some levelConfig \<and>
    0 \<le> patternPick rnd \<and> patternPick rnd < 1 \<longrightarrow>
      (\<exists>s'. gameLoop rnd timestamp s = Inr s' \<and>
         (if \<not> isEventActive s \<and>
             eventRoll rnd < eventProbability levelConfig * deltaRatio timestamp s
          then isEventActive s' \<and>
               activeEventType s' = pickAt [Storm, Fog, InvertShock] (eventPick rnd) \<and>
               eventTimeouts s' = eventTimeouts s @ [timestamp + 4000]
          else isEventActive s' = isEventActive s \<and>
               activeEventType s' = activeEventType s \<and>
               eventTimeouts s' = eventTimeouts s))) \<and>
   \<not> isEventActive (eventTimeoutCallback a) \<and>
   activeEventType (eventTimeoutCallback a) = None \<and>
   ((\<exists>due \<in> set (eventTimeouts a). due \<le> t) \<longrightarrow>
      \<not> isEventActive (fireEventTimeouts t a) \<and>
      activeEventType (fireEventTimeouts t a) = None \<and>
      eventTimeouts (fireEventTimeouts t a) = filter (\<lambda>due. \<not> due \<le> t) (eventTimeouts a)) \<and>
   (\<not> (\<exists>due \<in> set (eventTimeouts a). due \<le> t) \<longrightarrow> fireEventTimeouts t a = a)"
proof -
  have tick: "\<exists>s'. gameLoop rnd timestamp s = Inr s' \<and>
         (if \<not> isEventActive s \<and>
             eventRoll rnd < eventProbability levelConfig * deltaRatio timestamp s
          then isEventActive s' \<and>
               activeEventType s' = pickAt [Storm, Fog, InvertShock] (eventPick rnd) \<and>
               eventTimeouts s' = eventTimeouts s @ [timestamp + 4000]
          else isEventActive s' = isEventActive s \<and>
               activeEventType s' = activeEventType s \<and>
               eventTimeouts s' = eventTimeouts s)"
    if "gameState s = Playing" and "levelAt (currentLevelIndex s) = Some levelConfig"
      and "0 \<le> patternPick rnd" and "patternPick rnd < 1"
  proof -
    from that(2) have "currentLevelIndex s < length LEVELS"
      by (simp add: levelAt_def split: if_splits)
    from gameLoop_returns[OF this that(3,4)] obtain s'
      where s': "gameLoop rnd timestamp s = Inr s'" by blast
    from gameLoop_event[OF that(1,2) s'] s' show ?thesis
      by (auto simp: eventPhase_def triggerRandomEvent_def)
  qed
  have fire: "\<not> isEventActive (fireEventTimeouts t a) \<and>
      activeEventType (fireEventTimeouts t a) = None \<and>
      eventTimeouts (fireEventTimeouts t a) = filter (\<lambda>due. \<not> due \<le> t) (eventTimeouts a)"
    if "\<exists>due \<in> set (eventTimeouts a). due \<le> t"
  proof -
    from that have "filter (\<lambda>due. due \<le> t) (eventTimeouts a) \<noteq> []"
      by (simp add: filter_empty_conv)
    then show ?thesis
      by (simp add: fireEventTimeouts_def fold_eventTimeoutCallback eventTimeoutCallback_def)
  qed
  have idle: "fireEventTimeouts t a = a" if "\<not> (\<exists>due \<in> set (eventTimeouts a). due \<le> t)"
  proof -
    from that have "filter (\<lambda>due. due \<le> t) (eventTimeouts a) = []"
      and "filter (\<lambda>due. \<not> due \<le> t) (eventTimeouts a) = eventTimeouts a"
      by (simp_all add: filter_empty_conv filter_id_conv)
    then show ?thesis by (simp add: fireEventTimeouts_def)
  qed
  from tick fire idle show ?thesis
    by (simp add: triggerRandomEvent_def eventTimeoutCallback_def)
qed

theorem single_active_event_witness:
  "triggerRandomEvent 2000 quietRnd stormGame stormGame = stormGame \<and>
   isEventActive (triggerRandomEvent 1000 quietRnd playingGame playingGame) \<and>
   activeEventType (triggerRandomEvent 1000 quietRnd playingGame playingGame) = Some Storm \<and>
   eventTimeouts (triggerRandomEvent 1000 quietRnd playingGame playingGame) = [5000] \<and>
   (\<exists>s'. gameLoop (quietRnd\<lparr>eventRoll := 0\<rparr>) 1016.66 stormGame = Inr s' \<and>
      isEventActive s' \<and> activeEventType s' = Some Storm \<and> eventTimeouts s' = [4000]) \<and>
   (\<exists>s'. gameLoop (quietRnd\<lparr>eventRoll := 0\<rparr>) 1016.66 playingGame = Inr s' \<and>
      isEventActive s' \<and> activeEventType s' = Some Storm \<and> eventTimeouts s' = [5016.66]) \<and>
   \<not> isEventActive (fireEventTimeouts 4000 stormGame) \<and>
   fireEventTimeouts 3999 stormGame = stormGame"
proof -
  note defs = stormGame_def examples pickAt_def levelAt_def LEVELS_def deltaRatio_def
  from single_active_event[of stormGame 2000 quietRnd stormGame "LEVELS ! 0" "1016.66" 0]
  have a: "triggerRandomEvent 2000 quietRnd stormGame stormGame = stormGame"
    by (simp add: defs)
  from single_active_event[of playingGame 1000 quietRnd playingGame "LEVELS ! 0" "1016.66" 0]
  have b: "isEventActive (triggerRandomEvent 1000 quietRnd playingGame playingGame)"
    "activeEventType (triggerRandomEvent 1000 quietRnd playingGame playingGame) = Some Storm"
    "eventTimeouts (triggerRandomEvent 1000 quietRnd playingGame playingGame) = [5000]"
    by (simp_all add: defs)
  from single_active_event[of stormGame 0 "quietRnd\<lparr>eventRoll := 0\<rparr>" stormGame "LEVELS ! 0"
      "1016.66" 4000]
  have c: "\<exists>s'. gameLoop (quietRnd\<lparr>eventRoll := 0\<rparr>) 1016.66 stormGame = Inr s' \<and>
      isEventActive s' \<and> activeEventType s' = Some Storm \<and> eventTimeouts s' = [4000]"
    and e: "\<not> isEventActive (fireEventTimeouts 4000 stormGame)"
    by (simp_all add: defs)
  from single_active_event[of playingGame 0 "quietRnd\<lparr>eventRoll := 0\<rparr>" stormGame "LEVELS ! 0"
      "1016.66" 3999]
  have d: "\<exists>s'. gameLoop (quietRnd\<lparr>eventRoll := 0\<rparr>) 1016.66 playingGame = Inr s' \<and>
      isEventActive s' \<and> activeEventType s' = Some Storm \<and> eventTimeouts s' = [5016.66]"
    and f: "fireEventTimeouts 3999 stormGame = stormGame"
    by (simp_all add: defs)
  from a b c d e f show ?thesis by simp
qed

text \<open>
  C9. The gravity-inversion input hook does nothing when the run state is not
  \<open>Playing\<close>: it returns the state it was given, every field unchanged, and it has no
  error result. While \<open>Playing\<close> it negates the gravity direction.
\<close>

theorem toggleGravity_noop_unless_playing:
  "(gameState s \<noteq> Playing \<longrightarrow> toggleGravity s = s) \<and>
   (gameState s = Playing \<longrightarrow> gravityDir (toggleGravity s) = - gravityDir s)"
  by (simp add: toggleGravity_def)

theorem toggleGravity_noop_unless_playing_witness:
  "gameState initialGame \<noteq> Playing \<and> toggleGravity initialGame = initialGame \<and>
   gameState playingGame = Playing \<and> gravityDir playingGame = 1 \<and>
   gravityDir (toggleGravity playingGame) = - 1"
  using toggleGravity_noop_unless_playing[of initialGame]
    toggleGravity_noop_unless_playing[of playingGame]
  by (simp add: initialGame_def playingGame_def)

text \<open>
  C10. The number of live obstacles stays at most \<open>obstacleMax + 2\<close> of the active tier:
  a tick keeps the bound (the gate \<open>length < obstacleMax\<close> reads the count before the
  tick, and at most three obstacles are appended), a tier advance keeps it (the maximum
  grows with the tier), and a run starts with one obstacle. The bound is reached: a tick
  that starts with \<open>obstacleMax - 1\<close> obstacles and spawns a pattern ends with
  \<open>obstacleMax + 2\<close>.
\<close>

theorem obstacle_soft_cap:
  assumes "levelAt (currentLevelIndex s) = Some levelConfig"
    and "0 \<le> patternPick rnd" and "patternPick rnd < 1"
    and "length (obstacles s) \<le> obstacleMax levelConfig + 2"
  shows "(\<exists>s'. gameLoop rnd timestamp s = Inr s' \<and>
            levelAt (currentLevelIndex s') = Some levelConfig \<and>
            length (obstacles s') \<le> obstacleMax levelConfig + 2 \<and>
            length (obstacles s') \<le> length (obstacles s) + 3) \<and>
         (\<exists>levelConfig'. levelAt (currentLevelIndex (levelAdvance s)) = Some levelConfig' \<and>
            length (obstacles (levelAdvance s)) \<le> obstacleMax levelConfig' + 2) \<and>
         (\<exists>s0 levelConfig0. startGame now rnd s = Inr s0 \<and>
            levelAt (currentLevelIndex s0) = Some levelConfig0 \<and>
            length (obstacles s0) \<le> obstacleMax levelConfig0 + 2) \<and>
         (\<exists>s'. gameLoop patternRnd 1016.66 crowdedGame = Inr s' \<and>
            levelAt (currentLevelIndex crowdedGame) = Some (LEVELS ! 0) \<and>
            length (obstacles crowdedGame) = obstacleMax (LEVELS ! 0) - 1 \<and>
            length (obstacles s') = obstacleMax (LEVELS ! 0) + 2)"
proof -
  have tick: "\<exists>s'. gameLoop rnd timestamp s = Inr s' \<and>
            levelAt (currentLevelIndex s') = Some levelConfig \<and>
            length (obstacles s') \<le> obstacleMax levelConfig + 2 \<and>
            length (obstacles s') \<le> length (obstacles s) + 3"
  proof (cases "gameState s = Playing")
    case False
    then have "gameLoop rnd timestamp s = Inr s" by (simp add: gameLoop_def)
    with assms(1,4) show ?thesis by simp
  next
    case True
    from gameLoop_tick[OF True assms(1-3), of timestamp] obtain s' newObstacles k
      where loop: "gameLoop rnd timestamp s = Inr s'"
        and len: "length newObstacles =
           (if spawnFires rnd (deltaRatio timestamp s) levelConfig s
            then (if patternRoll rnd < 0.25 then 3 else 1) else 0)"
        and obs: "obstacles s' = map (slowObstacle ^^ k)
            (advanceObstacles (deltaRatio timestamp s) s (obstacles s) @ newObstacles)"
      by blast
    have idx: "levelAt (currentLevelIndex s') = Some levelConfig"
      using gameLoop_speedMultiplier[OF loop] assms(1) by simp
    have count: "length (obstacles s') =
        length (advanceObstacles (deltaRatio timestamp s) s (obstacles s)) + length newObstacles"
      by (simp add: obs)
    have adv: "length (advanceObstacles (deltaRatio timestamp s) s (obstacles s)) \<le> length (obstacles s)"
      by (rule length_advanceObstacles)
    have "length (obstacles s') \<le> obstacleMax levelConfig + 2"
    proof (cases "spawnFires rnd (deltaRatio timestamp s) levelConfig s")
      case True
      then have "length (obstacles s) < obstacleMax levelConfig" by (simp add: spawnFires_def)
      moreover have "length newObstacles \<le> 3" using len by simp
      ultimately show ?thesis using count adv by linarith
    next
      case False
      then have "length newObstacles = 0" using len by simp
      then show ?thesis using count adv assms(4) by linarith
    qed
    moreover have "length (obstacles s') \<le> length (obstacles s) + 3"
      using count adv len by (simp split: if_splits)
    ultimately show ?thesis using loop idx by blast
  qed
  have advance: "\<exists>levelConfig'. levelAt (currentLevelIndex (levelAdvance s)) = Some levelConfig' \<and>
            length (obstacles (levelAdvance s)) \<le> obstacleMax levelConfig' + 2"
  proof (cases "currentLevelIndex s + 1 < length LEVELS \<and>
                score s \<ge> thresholdScore (LEVELS ! (currentLevelIndex s + 1))")
    case False
    then have "levelAdvance s = s" by (auto simp: levelAdvance_def Let_def)
    with assms(1,4) show ?thesis by simp
  next
    case True
    then have "currentLevelIndex (levelAdvance s) = currentLevelIndex s + 1"
      and "obstacles (levelAdvance s) = obstacles s"
      by (simp_all add: levelAdvance_def Let_def)
    moreover from assms(1) have "levelConfig = LEVELS ! currentLevelIndex s"
      by (simp add: levelAt_def split: if_splits)
    ultimately show ?thesis
      using True obstacleMax_mono[of "currentLevelIndex s"] assms(4)
      by (simp add: levelAt_def)
  qed
  have start: "\<exists>s0 levelConfig0. startGame now rnd s = Inr s0 \<and>
            levelAt (currentLevelIndex s0) = Some levelConfig0 \<and>
            length (obstacles s0) \<le> obstacleMax levelConfig0 + 2"
    using assms(1) by (simp add: startGame_def levelAt_def LEVELS_def)
  have tight: "\<exists>s'. gameLoop patternRnd 1016.66 crowdedGame = Inr s' \<and>
            levelAt (currentLevelIndex crowdedGame) = Some (LEVELS ! 0) \<and>
            length (obstacles crowdedGame) = obstacleMax (LEVELS ! 0) - 1 \<and>
            length (obstacles s') = obstacleMax (LEVELS ! 0) + 2"
    by (simp add: examples tick_defs)
  from tick advance start tight show ?thesis by blast
qed

theorem obstacle_soft_cap_witness:
  "(\<exists>s'. gameLoop patternRnd 1016.66 crowdedGame = Inr s' \<and> length (obstacles s') \<le> 4 + 2) \<and>
   length (obstacles crowdedGame) = 3"
proof -
  have "levelAt (currentLevelIndex crowdedGame) = Some (LEVELS ! 0)"
    and "0 \<le> patternPick patternRnd" and "patternPick patternRnd < 1"
    and "length (obstacles crowdedGame) \<le> obstacleMax (LEVELS ! 0) + 2"
    by (simp_all add: examples levelAt_def LEVELS_def)
  from obstacle_soft_cap[OF this, of "1016.66" 1000] show ?thesis
    by (auto simp: LEVELS_def examples)
qed

end
